theory Spec2Isabelle
  imports Complex_Main "HOL-Library.AList" "HOL-Library.Char_ord" "HOL-Library.List_Lexorder"
begin

section \<open>Python values\<close>

text \<open>
  The three modules \<^verbatim>\<open>src/pm-risk/src/config.py\<close>, \<^verbatim>\<open>inference_configured.py\<close> and
  \<^verbatim>\<open>train_configured.py\<close> are embedded function by function. Every \<^verbatim>\<open>raise\<close> and every
  exception of a built-in operation is a value \<open>Inl e\<close> of the result type
  \<open>py_error + 'a\<close>. Only subclasses of \<^verbatim>\<open>Exception\<close> are modelled, so the handler
  \<^verbatim>\<open>except Exception\<close> catches every \<open>py_error\<close>.
  \<open>EnvironmentError\<close> is Python's alias of \<^verbatim>\<open>OSError\<close>; \<open>JSONDecodeError\<close> is a subclass
  of \<^verbatim>\<open>ValueError\<close>, and \<open>FileNotFoundError\<close>, \<open>IsADirectoryError\<close> and
  \<open>FileExistsError\<close> are subclasses of \<^verbatim>\<open>OSError\<close>. \<open>LibraryError\<close> stands for any other
  exception a library call raises.
\<close>

datatype py_error =
    ValueError | JSONDecodeError | TypeError | KeyError | AttributeError | IndexError
  | OverflowError | EnvironmentError | FileNotFoundError | IsADirectoryError
  | FileExistsError | LibraryError string

text \<open>\<^verbatim>\<open>isinstance(e, ValueError)\<close>.\<close>

definition is_ValueError :: "py_error \<Rightarrow> bool" where
  "is_ValueError e = (e = ValueError \<or> e = JSONDecodeError)"

text \<open>
  A Python float. Comparison of two floats is exact, so a finite float is represented by
  the real number it denotes; the infinities and NaN (which \<^verbatim>\<open>json.load\<close> accepts as
  literals) are kept apart. No arithmetic on floats is modelled: the program does none.
\<close>

datatype pyfloat = Finite real | PosInf | NegInf | NaN

text \<open>The operator \<^verbatim>\<open>>=\<close> on two floats (IEEE 754: every comparison with NaN is false).\<close>

fun py_ge :: "pyfloat \<Rightarrow> pyfloat \<Rightarrow> bool" where
  "py_ge NaN y = False"
| "py_ge x NaN = False"
| "py_ge PosInf y = True"
| "py_ge x NegInf = True"
| "py_ge (Finite a) (Finite b) = (b \<le> a)"
| "py_ge (Finite a) PosInf = False"
| "py_ge NegInf y = False"

text \<open>What \<^verbatim>\<open>json.load\<close> returns: None, bool, int, float, str, list or dict.\<close>

datatype json =
    JNull | JBool bool | JInt int | JFloat pyfloat | JStr string
  | JList "json list" | JDict "(string \<times> json) list"

text \<open>\<^verbatim>\<open>d.get(k, default)\<close>: only a dict has the method.\<close>

fun py_get :: "json \<Rightarrow> string \<Rightarrow> json \<Rightarrow> py_error + json" where
  "py_get (JDict kvs) k d = Inr (case map_of kvs k of Some v \<Rightarrow> v | None \<Rightarrow> d)"
| "py_get v k d = Inl AttributeError"

text \<open>\<^verbatim>\<open>d[k]\<close> with a string key: KeyError on a dict without the key, TypeError on
  every other value (a list or a string wants an integer index, the rest is not
  subscriptable).\<close>

fun py_getitem :: "json \<Rightarrow> string \<Rightarrow> py_error + json" where
  "py_getitem (JDict kvs) k = (case map_of kvs k of Some v \<Rightarrow> Inr v | None \<Rightarrow> Inl KeyError)"
| "py_getitem v k = Inl TypeError"

text \<open>\<^verbatim>\<open>d[k] = v\<close> with a string key; the updated object is returned.\<close>

fun py_setitem :: "json \<Rightarrow> string \<Rightarrow> json \<Rightarrow> py_error + json" where
  "py_setitem (JDict kvs) k v = Inr (JDict (AList.update k v kvs))"
| "py_setitem x k v = Inl TypeError"

text \<open>Truth value of an object, as \<^verbatim>\<open>if x:\<close> and \<^verbatim>\<open>not x\<close> take it.\<close>

fun truthy :: "json \<Rightarrow> bool" where
  "truthy JNull = False"
| "truthy (JBool b) = b"
| "truthy (JInt n) = (n \<noteq> 0)"
| "truthy (JFloat x) = (x \<noteq> Finite 0)"
| "truthy (JStr s) = (s \<noteq> [])"
| "truthy (JList xs) = (xs \<noteq> [])"
| "truthy (JDict kvs) = (kvs \<noteq> [])"

section \<open>The runtime: libraries, files, environment\<close>

text \<open>A NumPy array of floats, of any depth.\<close>

datatype ndarray = Scalar pyfloat | NdArray "ndarray list"

text \<open>What \<open>input_fn\<close> hands to the model: a table of named rows
  (\<^verbatim>\<open>pd.DataFrame([feats])\<close>) or an array (\<^verbatim>\<open>np.array([feats], dtype=float)\<close>).\<close>

datatype features = Table "(string \<times> json) list list" | Array ndarray

text \<open>A training table: named columns, each with its pandas dtype (object or not) and
  its cells.\<close>

datatype column = Column (is_object: bool) (cells: "json list")

type_synonym dataframe = "(string \<times> column) list"

text \<open>
  A fitted scikit-learn pipeline is opaque: it answers \<^verbatim>\<open>predict_proba\<close> (a matrix, one
  row per input row, one column per class) and \<^verbatim>\<open>predict\<close>. The attribute
  \<^verbatim>\<open>_decision_threshold\<close> is absent (\<open>None\<close>) until \<open>model_fn\<close> sets it.
\<close>

record model =
  predict_proba :: "features \<Rightarrow> py_error + pyfloat list list"
  predict :: "dataframe \<Rightarrow> py_error + json list"
  decision_threshold :: "pyfloat option"

text \<open>A node of the file system: a directory with the names of its entries (what
  \<^verbatim>\<open>os.listdir\<close> answers, in any order), or a file with its content.\<close>

datatype fnode = Dir "string list" | File string

type_synonym filesystem = "string \<Rightarrow> fnode option"

type_synonym environ = "string \<Rightarrow> string option"

text \<open>The \<^verbatim>\<open>ColumnTransformer\<close> that \<open>build_preprocessor\<close> configures.\<close>

record column_transformer =
  cat_columns :: "string list"
  num_columns :: "string list"

text \<open>
  The functions of the Python runtime and of the libraries (json, numpy, pandas, joblib,
  glob, scikit-learn, xgboost) that the program calls are parameters of the model: the
  program is verified for every behaviour they may have.
  \<^item> \<open>json_loads\<close>: \<^verbatim>\<open>json.loads\<close> (and \<^verbatim>\<open>json.load\<close> on a file's text);
  \<^item> \<open>str_lower\<close>: \<^verbatim>\<open>str.lower\<close>;
  \<^item> \<open>float_of_int\<close>, \<open>float_of_str\<close>: \<^verbatim>\<open>float(x)\<close> on an int and on a str;
  \<^item> \<open>np_array_float\<close>: \<^verbatim>\<open>np.array(x, dtype=float)\<close>;
  \<^item> \<open>joblib_dumps\<close>, \<open>joblib_loads\<close>: the bytes \<^verbatim>\<open>joblib.dump\<close> writes, and
    \<^verbatim>\<open>joblib.load\<close> on a file's bytes;
  \<^item> \<open>iglob_dirs\<close>: the directories that \<^verbatim>\<open>glob\<close> finds for a directory name holding
    one of the pattern characters \<^verbatim>\<open>*\<close>, \<^verbatim>\<open>?\<close> and \<^verbatim>\<open>[\<close> (the recursive call
    \<^verbatim>\<open>_iglob(dirname, ..., dironly=True)\<close>); the rest of \<^verbatim>\<open>glob.glob\<close> is modelled below;
  \<^item> \<open>parse_csv\<close>: \<^verbatim>\<open>pd.read_csv\<close> on a file's text;
  \<^item> \<open>train_test_split\<close>: the call with \<^verbatim>\<open>test_size=0.2, random_state=42, stratify=y\<close>;
  \<^item> \<open>fit_logreg\<close>, \<open>fit_xgboost\<close>: building and fitting the two pipelines;
  \<^item> \<open>f1_score\<close>: \<^verbatim>\<open>sklearn.metrics.f1_score\<close>;
  \<^item> \<open>format_4f\<close>: the format \<^verbatim>\<open>{x:.4f}\<close>;
  \<^item> \<open>default_config_path\<close>: the constant \<^verbatim>\<open>DEFAULT_CONFIG_PATH\<close>, the file
    \<^verbatim>\<open>config.json\<close> beside \<^verbatim>\<open>config.py\<close>.
\<close>

record runtime =
  json_loads :: "string \<Rightarrow> py_error + json"
  str_lower :: "string \<Rightarrow> string"
  float_of_int :: "int \<Rightarrow> py_error + pyfloat"
  float_of_str :: "string \<Rightarrow> py_error + pyfloat"
  np_array_float :: "json \<Rightarrow> py_error + ndarray"
  joblib_dumps :: "model \<Rightarrow> string"
  joblib_loads :: "string \<Rightarrow> py_error + model"
  iglob_dirs :: "filesystem \<Rightarrow> string \<Rightarrow> string list"
  parse_csv :: "string \<Rightarrow> py_error + dataframe"
  train_test_split ::
    "dataframe \<Rightarrow> json list \<Rightarrow> py_error + (dataframe \<times> dataframe \<times> json list \<times> json list)"
  fit_logreg :: "column_transformer \<Rightarrow> dataframe \<Rightarrow> json list \<Rightarrow> py_error + model"
  fit_xgboost :: "column_transformer \<Rightarrow> dataframe \<Rightarrow> json list \<Rightarrow> py_error + model"
  f1_score :: "json list \<Rightarrow> json list \<Rightarrow> py_error + pyfloat"
  format_4f :: "pyfloat \<Rightarrow> string"
  default_config_path :: string

text \<open>\<^verbatim>\<open>float(x)\<close> on a value of a JSON document.\<close>

fun py_float :: "runtime \<Rightarrow> json \<Rightarrow> py_error + pyfloat" where
  "py_float R (JFloat x) = Inr x"
| "py_float R (JInt n) = float_of_int R n"
| "py_float R (JBool b) = Inr (Finite (if b then 1 else 0))"
| "py_float R (JStr s) = float_of_str R s"
| "py_float R JNull = Inl TypeError"
| "py_float R (JList xs) = Inl TypeError"
| "py_float R (JDict kvs) = Inl TypeError"

text \<open>\<^verbatim>\<open>os.environ.get(name)\<close>: the name must be a string; an unset variable gives None.\<close>

fun environ_get :: "environ \<Rightarrow> json \<Rightarrow> py_error + json" where
  "environ_get env (JStr name) = Inr (case env name of Some v \<Rightarrow> JStr v | None \<Rightarrow> JNull)"
| "environ_get env v = Inl TypeError"

text \<open>\<^verbatim>\<open>os.path.join(a, b)\<close> (posixpath).\<close>

definition path_join :: "string \<Rightarrow> string \<Rightarrow> string" where
  "path_join a b =
     (if b \<noteq> [] \<and> hd b = CHR ''/'' then b
      else if a = [] \<or> last a = CHR ''/'' then a @ b
      else a @ ''/'' @ b)"

text \<open>\<^verbatim>\<open>os.path.isdir\<close>.\<close>

definition isdir :: "filesystem \<Rightarrow> string \<Rightarrow> bool" where
  "isdir fs p = (case fs p of Some (Dir names) \<Rightarrow> True | _ \<Rightarrow> False)"

text \<open>The names of the entries of a directory; none when the path is not a directory
  (\<^verbatim>\<open>glob\<close> lists with \<^verbatim>\<open>os.scandir\<close> and takes an \<^verbatim>\<open>OSError\<close> for an empty listing).\<close>

definition listdir :: "filesystem \<Rightarrow> string \<Rightarrow> string list" where
  "listdir fs p = (case fs p of Some (Dir names) \<Rightarrow> names | _ \<Rightarrow> [])"

text \<open>Opening a file for reading and reading all of it.\<close>

definition read_file :: "filesystem \<Rightarrow> string \<Rightarrow> py_error + string" where
  "read_file fs p =
     (case fs p of
        None \<Rightarrow> Inl FileNotFoundError
      | Some (Dir names) \<Rightarrow> Inl IsADirectoryError
      | Some (File s) \<Rightarrow> Inr s)"

text \<open>
  Opening a file for writing (\<^verbatim>\<open>'w'\<close>: created or truncated) and writing \<open>s\<close>. The
  file system is keyed by the path as the program spells it; parent directories and
  permissions are not tracked, and a write does not add a name to a directory's entries
  (the program lists no directory after it has written). The state is returned also when
  the call raises.
\<close>

definition write_file :: "filesystem \<Rightarrow> string \<Rightarrow> string \<Rightarrow> (py_error + unit) \<times> filesystem" where
  "write_file fs p s =
     (case fs p of
        Some (Dir names) \<Rightarrow> (Inl IsADirectoryError, fs)
      | _ \<Rightarrow> (Inr (), fs(p \<mapsto> File s)))"

text \<open>\<^verbatim>\<open>os.makedirs(p, exist_ok=True)\<close>: the empty path and a path that is a file raise;
  a directory that exists keeps its entries, a new one has none.\<close>

definition makedirs :: "filesystem \<Rightarrow> string \<Rightarrow> (py_error + unit) \<times> filesystem" where
  "makedirs fs p =
     (if p = [] then (Inl FileNotFoundError, fs)
      else case fs p of
        Some (File s) \<Rightarrow> (Inl FileExistsError, fs)
      | _ \<Rightarrow> (Inr (), fs(p \<mapsto> Dir (listdir fs p))))"

section \<open>glob\<close>

text \<open>
  \<^verbatim>\<open>glob.glob(pathname)\<close> on POSIX, for the one shape of \<open>pathname\<close> that the program
  passes: a path whose last component is the pattern \<^verbatim>\<open>*.csv\<close>.
\<close>

text \<open>\<^verbatim>\<open>glob.has_magic\<close>: the string holds one of \<^verbatim>\<open>*\<close>, \<^verbatim>\<open>?\<close>, \<^verbatim>\<open>[\<close>.\<close>

definition has_magic :: "string \<Rightarrow> bool" where
  "has_magic s = (CHR ''*'' \<in> set s \<or> CHR ''?'' \<in> set s \<or> CHR ''['' \<in> set s)"

text \<open>\<^verbatim>\<open>glob._ishidden\<close>: the name begins with a dot.\<close>

definition ishidden :: "string \<Rightarrow> bool" where
  "ishidden name = (name \<noteq> [] \<and> hd name = CHR ''.'')"

text \<open>\<^verbatim>\<open>fnmatch.fnmatch(name, '*.csv')\<close>: the name ends in \<^verbatim>\<open>.csv\<close> (case matters on
  POSIX).\<close>

definition fnmatch_star_csv :: "string \<Rightarrow> bool" where
  "fnmatch_star_csv name = (4 \<le> length name \<and> drop (length name - 4) name = ''.csv'')"

text \<open>
  \<^verbatim>\<open>os.path.split(p)\<close> (posixpath): the part up to the last slash, without its trailing
  slashes unless it has nothing else, and the part after it.
\<close>

definition path_split :: "string \<Rightarrow> string \<times> string" where
  "path_split p =
     (let tail = rev (takeWhile (\<lambda>c. c \<noteq> CHR ''/'') (rev p));
          head = take (length p - length tail) p
      in (if head \<noteq> [] \<and> \<not> list_all (\<lambda>c. c = CHR ''/'') head
          then rev (dropWhile (\<lambda>c. c = CHR ''/'') (rev head))
          else head,
          tail))"

text \<open>
  \<^verbatim>\<open>glob._glob1(dirname, '*.csv', ...)\<close>: the entries of the directory, without the hidden
  ones (the pattern does not begin with a dot), that match the pattern. Directories are
  entries like files.
\<close>

definition glob1_star_csv :: "filesystem \<Rightarrow> string \<Rightarrow> string list" where
  "glob1_star_csv fs dirname =
     filter fnmatch_star_csv (filter (\<lambda>name. \<not> ishidden name) (listdir fs dirname))"

text \<open>
  \<^verbatim>\<open>glob.glob(pathname)\<close>, from \<^verbatim>\<open>glob._iglob\<close>:
  \<^verbatim>\<open>
    dirname, basename = os.path.split(pathname)
    if not dirname:
        yield from _glob1(root_dir, basename, dir_fd, dironly)
        return
    if dirname != pathname and has_magic(dirname):
        dirs = _iglob(dirname, root_dir, dir_fd, recursive, True)
    else:
        dirs = [dirname]
    for dirname in dirs:
        for name in _glob1(dirname, basename, dir_fd, dironly):
            yield os.path.join(dirname, name)
  \<close>
  With no directory part the current directory \<^verbatim>\<open>.\<close> is listed and the bare names are the
  result.
\<close>

definition glob_star_csv :: "runtime \<Rightarrow> filesystem \<Rightarrow> string \<Rightarrow> string list" where
  "glob_star_csv R fs pathname =
     (let dirname = fst (path_split pathname)
      in if dirname = [] then glob1_star_csv fs ''.''
         else
           (let dirs = (if dirname \<noteq> pathname \<and> has_magic dirname
                        then iglob_dirs R fs dirname else [dirname])
            in concat (map (\<lambda>d. map (path_join d) (glob1_star_csv fs d)) dirs)))"

text \<open>A path argument of an \<^verbatim>\<open>os\<close> call must be a string. (An int would be taken as a
  file descriptor and ends in an error as well; its class is not distinguished.)\<close>

fun as_path :: "json \<Rightarrow> py_error + string" where
  "as_path (JStr s) = Inr s"
| "as_path v = Inl TypeError"

section \<open>config.py\<close>

text \<open>
  Line 23 of \<open>load_config\<close>, the file that is read; \<open>config_path\<close> is \<open>None\<close> for
  Python's None, and \<^verbatim>\<open>or\<close> passes over None and the empty string:
  \<^verbatim>\<open>path = config_path or os.environ.get("APP_CONFIG_PATH", DEFAULT_CONFIG_PATH)\<close>
\<close>

definition config_location :: "runtime \<Rightarrow> environ \<Rightarrow> string option \<Rightarrow> string" where
  "config_location R env config_path =
     (let fallback =
        (case env ''APP_CONFIG_PATH'' of Some p \<Rightarrow> p | None \<Rightarrow> default_config_path R)
      in case config_path of
           None \<Rightarrow> fallback
         | Some p \<Rightarrow> if p \<noteq> [] then p else fallback)"

text \<open>
  \<^verbatim>\<open>load_config(config_path)\<close>, lines 21-32:
  \<^verbatim>\<open>
    path = ...
    with open(path, "r") as f:
        cfg = json.load(f)
    env_mode = os.environ.get("MODE")
    if env_mode:
        cfg["mode"] = env_mode.lower()
    if cfg.get("mode") not in ("local", "sagemaker"):
        raise ValueError(...)
    return cfg
  \<close>
\<close>

definition load_config ::
  "runtime \<Rightarrow> filesystem \<Rightarrow> environ \<Rightarrow> string option \<Rightarrow> py_error + json" where
  "load_config R fs env config_path =
     (case read_file fs (config_location R env config_path) of
        Inl e \<Rightarrow> Inl e
      | Inr text \<Rightarrow>
        (case json_loads R text of
           Inl e \<Rightarrow> Inl e
         | Inr cfg \<Rightarrow>
           (case (case env ''MODE'' of
                    None \<Rightarrow> Inr cfg
                  | Some env_mode \<Rightarrow>
                      if env_mode \<noteq> [] then py_setitem cfg ''mode'' (JStr (str_lower R env_mode))
                      else Inr cfg) of
              Inl e \<Rightarrow> Inl e
            | Inr cfg' \<Rightarrow>
              (case py_get cfg' ''mode'' JNull of
                 Inl e \<Rightarrow> Inl e
               | Inr m \<Rightarrow>
                   if m \<noteq> JStr ''local'' \<and> m \<noteq> JStr ''sagemaker'' then Inl ValueError
                   else Inr cfg'))))"

text \<open>
  \<^verbatim>\<open>resolve_paths(cfg)\<close>, lines 34-51. The literal \<^verbatim>\<open>"sagemaker"\<close> is the mode and the
  section that the specification calls managed-platform.
  \<^verbatim>\<open>
    mode = cfg["mode"]
    if mode == "local":
        data_path = cfg["local"]["data_path"]
        out_dir   = cfg["local"]["out_dir"]
    else:
        data_path = os.environ.get(cfg["sagemaker"]["train_channel"])
        out_dir   = os.environ.get(cfg["sagemaker"]["model_dir"])
        if not data_path or not out_dir:
            raise EnvironmentError(...)
    return data_path, out_dir
  \<close>
\<close>

definition resolve_paths :: "environ \<Rightarrow> json \<Rightarrow> py_error + (json \<times> json)" where
  "resolve_paths env cfg =
     (case py_getitem cfg ''mode'' of
        Inl e \<Rightarrow> Inl e
      | Inr mode \<Rightarrow>
        if mode = JStr ''local'' then
          (case py_getitem cfg ''local'' of
             Inl e \<Rightarrow> Inl e
           | Inr loc \<Rightarrow>
             (case py_getitem loc ''data_path'' of
                Inl e \<Rightarrow> Inl e
              | Inr data_path \<Rightarrow>
                (case py_getitem loc ''out_dir'' of
                   Inl e \<Rightarrow> Inl e
                 | Inr out_dir \<Rightarrow> Inr (data_path, out_dir))))
        else
          (case py_getitem cfg ''sagemaker'' of
             Inl e \<Rightarrow> Inl e
           | Inr sm \<Rightarrow>
             (case py_getitem sm ''train_channel'' of
                Inl e \<Rightarrow> Inl e
              | Inr train_channel \<Rightarrow>
                (case environ_get env train_channel of
                   Inl e \<Rightarrow> Inl e
                 | Inr data_path \<Rightarrow>
                   (case py_getitem sm ''model_dir'' of
                      Inl e \<Rightarrow> Inl e
                    | Inr model_dir \<Rightarrow>
                      (case environ_get env model_dir of
                         Inl e \<Rightarrow> Inl e
                       | Inr out_dir \<Rightarrow>
                           if \<not> truthy data_path \<or> \<not> truthy out_dir then Inl EnvironmentError
                           else Inr (data_path, out_dir)))))))"

text \<open>
  \<^verbatim>\<open>threshold(cfg)\<close>, lines 53-55:
  \<^verbatim>\<open>return float(cfg.get("inference", {}).get("threshold", 0.5))\<close>
\<close>

definition threshold :: "runtime \<Rightarrow> json \<Rightarrow> py_error + pyfloat" where
  "threshold R cfg =
     (case py_get cfg ''inference'' (JDict []) of
        Inl e \<Rightarrow> Inl e
      | Inr inference \<Rightarrow>
        (case py_get inference ''threshold'' (JFloat (Finite 0.5)) of
           Inl e \<Rightarrow> Inl e
         | Inr t \<Rightarrow> py_float R t))"

section \<open>inference_configured.py\<close>

text \<open>
  \<^verbatim>\<open>model_fn(model_dir)\<close>, lines 17-27:
  \<^verbatim>\<open>
    model_path = os.path.join(model_dir, 'model.joblib')
    model = joblib.load(model_path)
    try:
        cfg = load_config()
        model._decision_threshold = threshold(cfg)
    except Exception:
        model._decision_threshold = 0.5
    return model
  \<close>
\<close>

definition model_fn :: "runtime \<Rightarrow> filesystem \<Rightarrow> environ \<Rightarrow> string \<Rightarrow> py_error + model" where
  "model_fn R fs env model_dir =
     (let model_path = path_join model_dir ''model.joblib''
      in case read_file fs model_path of
        Inl e \<Rightarrow> Inl e
      | Inr bytes \<Rightarrow>
        (case joblib_loads R bytes of
           Inl e \<Rightarrow> Inl e
         | Inr model \<Rightarrow>
           (case load_config R fs env None of
              Inl e \<Rightarrow> Inr (model\<lparr>decision_threshold := Some (Finite 0.5)\<rparr>)
            | Inr cfg \<Rightarrow>
              (case threshold R cfg of
                 Inl e \<Rightarrow> Inr (model\<lparr>decision_threshold := Some (Finite 0.5)\<rparr>)
               | Inr t \<Rightarrow> Inr (model\<lparr>decision_threshold := Some t\<rparr>)))))"

text \<open>
  \<^verbatim>\<open>input_fn(request_body, request_content_type)\<close>, lines 29-38:
  \<^verbatim>\<open>
    if request_content_type == 'application/json':
        payload = json.loads(request_body)
        feats = payload.get('features')
        if isinstance(feats, dict):
            return pd.DataFrame([feats])
        elif isinstance(feats, list):
            return np.array([feats], dtype=float)
    raise ValueError('Unsupported content type or payload; ...')
  \<close>
\<close>

definition input_fn :: "runtime \<Rightarrow> string \<Rightarrow> string \<Rightarrow> py_error + features" where
  "input_fn R request_body request_content_type =
     (if request_content_type = ''application/json'' then
        (case json_loads R request_body of
           Inl e \<Rightarrow> Inl e
         | Inr payload \<Rightarrow>
           (case py_get payload ''features'' JNull of
              Inl e \<Rightarrow> Inl e
            | Inr feats \<Rightarrow>
              (case feats of
                 JDict d \<Rightarrow> Inr (Table [d])
               | JList xs \<Rightarrow>
                 (case np_array_float R (JList [JList xs]) of
                    Inl e \<Rightarrow> Inl e
                  | Inr a \<Rightarrow> Inr (Array a))
               | _ \<Rightarrow> Inl ValueError)))
      else Inl ValueError)"

text \<open>The response \<^verbatim>\<open>{'prediction': pred, 'proba': proba, 'threshold': thr}\<close>.\<close>

record prediction_result =
  prediction :: int
  proba :: pyfloat
  threshold_used :: pyfloat

text \<open>The element \<^verbatim>\<open>m[0, 1]\<close> of a matrix; IndexError outside it.\<close>

definition matrix_0_1 :: "pyfloat list list \<Rightarrow> py_error + pyfloat" where
  "matrix_0_1 m =
     (case m of
        [] \<Rightarrow> Inl IndexError
      | row # rest \<Rightarrow> (if 1 < length row then Inr (row ! 1) else Inl IndexError))"

text \<open>
  \<^verbatim>\<open>predict_fn(input_data, model)\<close>, lines 40-45:
  \<^verbatim>\<open>
    proba = float(model.predict_proba(input_data)[0, 1])
    thr = getattr(model, '_decision_threshold', 0.5)
    pred = int(proba >= thr)
    return {'prediction': pred, 'proba': proba, 'threshold': thr}
  \<close>
\<close>

definition predict_fn :: "features \<Rightarrow> model \<Rightarrow> py_error + prediction_result" where
  "predict_fn input_data model =
     (case predict_proba model input_data of
        Inl e \<Rightarrow> Inl e
      | Inr m \<Rightarrow>
        (case matrix_0_1 m of
           Inl e \<Rightarrow> Inl e
         | Inr p \<Rightarrow>
           (let thr = (case decision_threshold model of Some t \<Rightarrow> t | None \<Rightarrow> Finite 0.5);
                pred = (if py_ge p thr then 1 else 0)
            in Inr \<lparr>prediction = pred, proba = p, threshold_used = thr\<rparr>)))"

section \<open>train_configured.py\<close>

text \<open>
  The tail of \<open>load_csv\<close>, lines 37-40, on the chosen path:
  \<^verbatim>\<open>
    df = pd.read_csv(path)
    y = df['is_late'].values
    X = df.drop(columns=['is_late'])
    return X, y
  \<close>
\<close>

definition read_table :: "runtime \<Rightarrow> filesystem \<Rightarrow> string \<Rightarrow> py_error + (dataframe \<times> json list)" where
  "read_table R fs path =
     (case read_file fs path of
        Inl e \<Rightarrow> Inl e
      | Inr text \<Rightarrow>
        (case parse_csv R text of
           Inl e \<Rightarrow> Inl e
         | Inr df \<Rightarrow>
           (case map_of df ''is_late'' of
              None \<Rightarrow> Inl KeyError
            | Some c \<Rightarrow> Inr (filter (\<lambda>(name, col). name \<noteq> ''is_late'') df, cells c))))"

text \<open>
  \<^verbatim>\<open>load_csv(path_or_dir)\<close>, lines 26-40:
  \<^verbatim>\<open>
    if os.path.isdir(path_or_dir):
        candidates = sorted(glob.glob(os.path.join(path_or_dir, '*.csv')))
        if not candidates:
            raise FileNotFoundError(...)
        path = candidates[0]
    else:
        path = path_or_dir
  \<close>
  followed by \<open>read_table\<close>. Python orders strings by code point, as the order on
  \<open>string\<close> does.
\<close>

definition load_csv :: "runtime \<Rightarrow> filesystem \<Rightarrow> string \<Rightarrow> py_error + (dataframe \<times> json list)" where
  "load_csv R fs path_or_dir =
     (if isdir fs path_or_dir then
        (let candidates = sort (glob_star_csv R fs (path_join path_or_dir ''*.csv''))
         in if candidates = [] then Inl FileNotFoundError
            else read_table R fs (hd candidates))
      else read_table R fs path_or_dir)"

text \<open>
  \<^verbatim>\<open>build_preprocessor(X)\<close>, lines 42-52: the object columns are one-hot encoded, the
  others are scaled.
\<close>

definition build_preprocessor :: "dataframe \<Rightarrow> column_transformer" where
  "build_preprocessor X =
     \<lparr>cat_columns = map fst (filter (\<lambda>(name, col). is_object col) X),
      num_columns = map fst (filter (\<lambda>(name, col). \<not> is_object col) X)\<rparr>"

text \<open>What steps 1 to 4 of \<open>main\<close> hand to step 5.\<close>

record candidates =
  out_dir_of :: json
  logreg_model :: model
  logreg_f1 :: pyfloat
  xgboost_model :: model
  xgboost_f1 :: pyfloat

text \<open>
  Steps 1 to 4 of \<^verbatim>\<open>main(args)\<close>, lines 54-75: load the configuration, resolve the
  paths, read and split the data, fit and score both pipelines. None of them writes.
  \<^verbatim>\<open>
    cfg = load_config(args.config)
    data_path, out_dir = resolve_paths(cfg)
    X, y = load_csv(data_path)
    X_tr, X_te, y_tr, y_te = train_test_split(X, y, test_size=0.2, random_state=42, stratify=y)
    pre = build_preprocessor(X)
    lr = Pipeline([('pre', pre), ('clf', LogisticRegression(max_iter=200))])
    lr.fit(X_tr, y_tr)
    f1_lr = f1_score(y_te, lr.predict(X_te))
    xgb = Pipeline([('pre', pre), ('clf', XGBClassifier(...))])
    xgb.fit(X_tr, y_tr)
    f1_xgb = f1_score(y_te, xgb.predict(X_te))
  \<close>
\<close>

definition train_and_score ::
  "runtime \<Rightarrow> filesystem \<Rightarrow> environ \<Rightarrow> string option \<Rightarrow> py_error + candidates" where
  "train_and_score R fs env config =
     (case load_config R fs env config of
        Inl e \<Rightarrow> Inl e
      | Inr cfg \<Rightarrow>
     (case resolve_paths env cfg of
        Inl e \<Rightarrow> Inl e
      | Inr (data_path, out_dir) \<Rightarrow>
     (case as_path data_path of
        Inl e \<Rightarrow> Inl e
      | Inr data_path_str \<Rightarrow>
     (case load_csv R fs data_path_str of
        Inl e \<Rightarrow> Inl e
      | Inr (X, y) \<Rightarrow>
     (case train_test_split R X y of
        Inl e \<Rightarrow> Inl e
      | Inr (X_tr, X_te, y_tr, y_te) \<Rightarrow>
     (let pre = build_preprocessor X in
     (case fit_logreg R pre X_tr y_tr of
        Inl e \<Rightarrow> Inl e
      | Inr lr \<Rightarrow>
     (case predict lr X_te of
        Inl e \<Rightarrow> Inl e
      | Inr lr_pred \<Rightarrow>
     (case f1_score R y_te lr_pred of
        Inl e \<Rightarrow> Inl e
      | Inr f1_lr \<Rightarrow>
     (case fit_xgboost R pre X_tr y_tr of
        Inl e \<Rightarrow> Inl e
      | Inr xgb \<Rightarrow>
     (case predict xgb X_te of
        Inl e \<Rightarrow> Inl e
      | Inr xgb_pred \<Rightarrow>
     (case f1_score R y_te xgb_pred of
        Inl e \<Rightarrow> Inl e
      | Inr f1_xgb \<Rightarrow>
          Inr \<lparr>out_dir_of = out_dir, logreg_model = lr, logreg_f1 = f1_lr,
               xgboost_model = xgb, xgboost_f1 = f1_xgb\<rparr>))))))))))))"

text \<open>The three lines of \<^verbatim>\<open>metrics.txt\<close>, each ended by a newline.\<close>

definition metrics_text :: "runtime \<Rightarrow> pyfloat \<Rightarrow> pyfloat \<Rightarrow> string" where
  "metrics_text R f1_lr f1_xgb =
     ''logreg_f1='' @ format_4f R f1_lr @ [CHR 0x0A] @
     ''xgboost_f1='' @ format_4f R f1_xgb @ [CHR 0x0A] @
     ''best='' @ (if py_ge f1_xgb f1_lr then ''xgboost'' else ''logreg'') @ [CHR 0x0A]"

text \<open>
  Step 5 of \<^verbatim>\<open>main\<close>, lines 77-84:
  \<^verbatim>\<open>
    best = xgb if f1_xgb >= f1_lr else lr
    os.makedirs(out_dir, exist_ok=True)
    joblib.dump(best, os.path.join(out_dir, 'model.joblib'))
    with open(os.path.join(out_dir, 'metrics.txt'), 'w') as f:
        f.write(f'logreg_f1={f1_lr:.4f}\n')
        f.write(f'xgboost_f1={f1_xgb:.4f}\n')
        f.write(f'best={"xgboost" if f1_xgb >= f1_lr else "logreg"}\n')
  \<close>
  The final \<^verbatim>\<open>print\<close> writes to standard output only and is left out.
\<close>

definition pick_best_and_save ::
  "runtime \<Rightarrow> filesystem \<Rightarrow> candidates \<Rightarrow> (py_error + unit) \<times> filesystem" where
  "pick_best_and_save R fs c =
     (let best = (if py_ge (xgboost_f1 c) (logreg_f1 c) then xgboost_model c else logreg_model c)
      in case as_path (out_dir_of c) of
        Inl e \<Rightarrow> (Inl e, fs)
      | Inr out_dir \<Rightarrow>
        (case makedirs fs out_dir of
           (Inl e, fs1) \<Rightarrow> (Inl e, fs1)
         | (Inr u, fs1) \<Rightarrow>
           (case write_file fs1 (path_join out_dir ''model.joblib'') (joblib_dumps R best) of
              (Inl e, fs2) \<Rightarrow> (Inl e, fs2)
            | (Inr u, fs2) \<Rightarrow>
                write_file fs2 (path_join out_dir ''metrics.txt'')
                  (metrics_text R (logreg_f1 c) (xgboost_f1 c)))))"

text \<open>\<^verbatim>\<open>main(args)\<close>, lines 54-86, with \<open>config\<close> for \<^verbatim>\<open>args.config\<close>: the result and the
  file system it leaves.\<close>

definition main :: "runtime \<Rightarrow> filesystem \<Rightarrow> environ \<Rightarrow> string option \<Rightarrow> (py_error + unit) \<times> filesystem" where
  "main R fs env config =
     (case train_and_score R fs env config of
        Inl e \<Rightarrow> (Inl e, fs)
      | Inr c \<Rightarrow> pick_best_and_save R fs c)"

section \<open>The specification's reading of \<open>load\<close> and of the data loader\<close>

text \<open>
  Written from the specification's sentence, not from the code, for comparison with
  \<open>load_config\<close>: "If an environment variable for mode override is set, it replaces the
  document's mode field (case-insensitized). Fails with ConfigError if the resulting
  mode is not one of the two recognized literals." The argument is the parsed document.
\<close>

definition load_as_specified :: "runtime \<Rightarrow> environ \<Rightarrow> json \<Rightarrow> py_error + json" where
  "load_as_specified R env doc =
     (case (case env ''MODE'' of
              None \<Rightarrow> Inr doc
            | Some env_mode \<Rightarrow> py_setitem doc ''mode'' (JStr (str_lower R env_mode))) of
        Inl e \<Rightarrow> Inl e
      | Inr doc' \<Rightarrow>
        (case py_get doc' ''mode'' JNull of
           Inl e \<Rightarrow> Inl e
         | Inr m \<Rightarrow>
             if m = JStr ''local'' \<or> m = JStr ''sagemaker'' then Inr doc' else Inl ValueError))"

text \<open>
  Written from the specification's sentence, not from the code, for comparison with
  \<open>load_csv\<close>: "If the resolved data path is a directory, select the lexicographically first
  file with a recognized tabular extension inside it; fail with DataNotFoundError if none
  exists."
\<close>

definition load_csv_as_specified ::
  "runtime \<Rightarrow> filesystem \<Rightarrow> string \<Rightarrow> py_error + (dataframe \<times> json list)" where
  "load_csv_as_specified R fs path_or_dir =
     (if isdir fs path_or_dir then
        (let tabular = filter (\<lambda>name. 4 \<le> length name \<and> drop (length name - 4) name = ''.csv'')
                         (listdir fs path_or_dir);
             files = filter (\<lambda>q. case fs q of Some (File text) \<Rightarrow> True | _ \<Rightarrow> False)
                       (map (path_join path_or_dir) tabular)
         in if files = [] then Inl FileNotFoundError
            else read_table R fs (hd (sort files)))
      else read_table R fs path_or_dir)"

section \<open>A concrete runtime\<close>

text \<open>
  One runtime, file system and environment on which the theorems are instantiated. The
  library functions are given on the few inputs that occur and fail elsewhere.
\<close>

definition local_config_text :: string where
  \<open>local_config_text =
     ''{"mode": "local", "local": {"data_path": "data/projects.csv", "out_dir": "artifacts"}, "sagemaker": {"train_channel": "SM_CHANNEL_TRAIN", "model_dir": "SM_MODEL_DIR"}, "inference": {"threshold": 0.7}}''\<close>

definition local_config :: json where
  "local_config =
     JDict [(''mode'', JStr ''local''),
            (''local'', JDict [(''data_path'', JStr ''data/projects.csv''),
                               (''out_dir'', JStr ''artifacts'')]),
            (''sagemaker'', JDict [(''train_channel'', JStr ''SM_CHANNEL_TRAIN''),
                                   (''model_dir'', JStr ''SM_MODEL_DIR'')]),
            (''inference'', JDict [(''threshold'', JFloat (Finite 0.7))])]"

definition platform_config :: json where
  "platform_config =
     JDict [(''mode'', JStr ''sagemaker''),
            (''local'', JDict [(''data_path'', JStr ''data/projects.csv''),
                               (''out_dir'', JStr ''artifacts'')]),
            (''sagemaker'', JDict [(''train_channel'', JStr ''SM_CHANNEL_TRAIN''),
                                   (''model_dir'', JStr ''SM_MODEL_DIR'')]),
            (''inference'', JDict [(''threshold'', JFloat (Finite 0.7))])]"

definition null_threshold_text :: string where
  \<open>null_threshold_text = ''{"mode": "local", "inference": {"threshold": null}}''\<close>

definition null_threshold_config :: json where
  "null_threshold_config =
     JDict [(''mode'', JStr ''local''), (''inference'', JDict [(''threshold'', JNull)])]"

definition named_request_text :: string where
  \<open>named_request_text = ''{"features": {"project_type": "infra", "team_size": 5}}''\<close>

definition list_request_text :: string where
  \<open>list_request_text = ''{"features": [5, 0.25]}''\<close>

definition scalar_request_text :: string where
  \<open>scalar_request_text = ''{"features": 5}''\<close>

definition array_body_text :: string where
  "array_body_text = ''[1, 2]''"

definition sample_json_loads :: "string \<Rightarrow> py_error + json" where
  "sample_json_loads s =
     (if s = local_config_text then Inr local_config
      else if s = null_threshold_text then Inr null_threshold_config
      else if s = named_request_text then
        Inr (JDict [(''features'', JDict [(''project_type'', JStr ''infra''), (''team_size'', JInt 5)])])
      else if s = list_request_text then
        Inr (JDict [(''features'', JList [JInt 5, JFloat (Finite 0.25)])])
      else if s = scalar_request_text then Inr (JDict [(''features'', JInt 5)])
      else if s = array_body_text then Inr (JList [JInt 1, JInt 2])
      else Inl JSONDecodeError)"

text \<open>\<^verbatim>\<open>str.lower\<close> on ASCII text.\<close>

definition ascii_lower :: "string \<Rightarrow> string" where
  "ascii_lower s =
     map (\<lambda>c. case map_of (zip ''ABCDEFGHIJKLMNOPQRSTUVWXYZ'' ''abcdefghijklmnopqrstuvwxyz'') c of
                 Some l \<Rightarrow> l | None \<Rightarrow> c) s"

definition sample_float_of_int :: "int \<Rightarrow> py_error + pyfloat" where
  "sample_float_of_int n = (if \<bar>n\<bar> \<le> 2 ^ 53 then Inr (Finite (of_int n)) else Inl OverflowError)"

definition sample_float_of_str :: "string \<Rightarrow> py_error + pyfloat" where
  "sample_float_of_str s = (if s = ''0.5'' then Inr (Finite 0.5) else Inl ValueError)"

definition sample_np_array_float :: "json \<Rightarrow> py_error + ndarray" where
  "sample_np_array_float v =
     (if v = JList [JList [JInt 5, JFloat (Finite 0.25)]]
      then Inr (NdArray [NdArray [Scalar (Finite 5), Scalar (Finite 0.25)]])
      else Inl ValueError)"

text \<open>A model that gives every input the positive-class probability \<open>p\<close> and predicts
  the label \<open>l\<close> for every row.\<close>

definition constant_model :: "real \<Rightarrow> int \<Rightarrow> model" where
  "constant_model p l =
     \<lparr>predict_proba = (\<lambda>x. Inr [[Finite (1 - p), Finite p]]),
      predict = (\<lambda>df. Inr (case df of [] \<Rightarrow> [] | (name, col) # rest \<Rightarrow> map (\<lambda>v. JInt l) (cells col))),
      decision_threshold = None\<rparr>"

definition sample_joblib_dumps :: "model \<Rightarrow> string" where
  "sample_joblib_dumps m =
     (if predict m [(''x'', Column False [JInt 0])] = Inr [JInt 1] then ''xgboost-pipeline''
      else ''logreg-pipeline'')"

definition sample_joblib_loads :: "string \<Rightarrow> py_error + model" where
  "sample_joblib_loads s =
     (if s = ''xgboost-pipeline'' then Inr (constant_model 0.7 1)
      else if s = ''logreg-pipeline'' then Inr (constant_model 0.4 0)
      else Inl (LibraryError ''UnpicklingError''))"

text \<open>The pattern \<^verbatim>\<open>br[1]\<close> matches the name \<^verbatim>\<open>br1\<close> and no other.\<close>

definition sample_iglob_dirs :: "filesystem \<Rightarrow> string \<Rightarrow> string list" where
  "sample_iglob_dirs fs pattern =
     (if pattern = ''/opt/ml/input/data/br[1]''
      then filter (isdir fs) [''/opt/ml/input/data/br1'']
      else [])"

definition projects_csv_text :: string where
  "projects_csv_text =
     ''project_type,team_size,is_late'' @ [CHR 0x0A] @ ''infra,5,1'' @ [CHR 0x0A] @
     ''web,3,1'' @ [CHR 0x0A]"

definition unlabelled_csv_text :: string where
  "unlabelled_csv_text = ''project_type,team_size'' @ [CHR 0x0A] @ ''infra,5'' @ [CHR 0x0A]"

definition sample_parse_csv :: "string \<Rightarrow> py_error + dataframe" where
  "sample_parse_csv s =
     (if s = projects_csv_text then
        Inr [(''project_type'', Column True [JStr ''infra'', JStr ''web'']),
             (''team_size'', Column False [JInt 5, JInt 3]),
             (''is_late'', Column False [JInt 1, JInt 1])]
      else if s = unlabelled_csv_text then
        Inr [(''project_type'', Column True [JStr ''infra'']),
             (''team_size'', Column False [JInt 5])]
      else Inl (LibraryError ''ParserError''))"

definition sample_f1_score :: "json list \<Rightarrow> json list \<Rightarrow> py_error + pyfloat" where
  "sample_f1_score y_true y_pred = Inr (Finite (if y_true = y_pred then 1 else 0))"

definition sample_format_4f :: "pyfloat \<Rightarrow> string" where
  "sample_format_4f x =
     (if x = Finite 1 then ''1.0000'' else if x = Finite 0 then ''0.0000'' else ''nan'')"

definition sample_runtime :: runtime where
  "sample_runtime =
     \<lparr>json_loads = sample_json_loads,
      str_lower = ascii_lower,
      float_of_int = sample_float_of_int,
      float_of_str = sample_float_of_str,
      np_array_float = sample_np_array_float,
      joblib_dumps = sample_joblib_dumps,
      joblib_loads = sample_joblib_loads,
      iglob_dirs = sample_iglob_dirs,
      parse_csv = sample_parse_csv,
      train_test_split = (\<lambda>X y. Inr (X, X, y, y)),
      fit_logreg = (\<lambda>pre X y. Inr (constant_model 0.4 0)),
      fit_xgboost = (\<lambda>pre X y. Inr (constant_model 0.7 1)),
      f1_score = sample_f1_score,
      format_4f = sample_format_4f,
      default_config_path = ''/opt/ml/code/config.json''\<rparr>"

definition sample_fs :: filesystem where
  "sample_fs =
     map_of
       [(''config.json'', File local_config_text),
        (''/opt/ml/code/config.json'', File local_config_text),
        (''broken.json'', File null_threshold_text),
        (''data/projects.csv'', File projects_csv_text),
        (''data/unlabelled.csv'', File unlabelled_csv_text),
        (''/opt/ml/input/data/train'', Dir [''part-b.csv'', ''notes.txt'', ''part-a.csv'']),
        (''/opt/ml/input/data/train/part-b.csv'', File unlabelled_csv_text),
        (''/opt/ml/input/data/train/notes.txt'', File ''see part-a''),
        (''/opt/ml/input/data/train/part-a.csv'', File projects_csv_text),
        (''/opt/ml/input/data/empty'', Dir []),
        (''/opt/ml/input/data/hidden'', Dir [''.part.csv'']),
        (''/opt/ml/input/data/hidden/.part.csv'', File projects_csv_text),
        (''/opt/ml/input/data/mixed'', Dir [''b.csv'', ''a.csv'']),
        (''/opt/ml/input/data/mixed/a.csv'', Dir []),
        (''/opt/ml/input/data/mixed/b.csv'', File projects_csv_text),
        (''/opt/ml/input/data/br[1]'', Dir [''a.csv'']),
        (''/opt/ml/input/data/br[1]/a.csv'', File projects_csv_text),
        (''/opt/ml/model/model.joblib'', File ''xgboost-pipeline'')]"

definition platform_env :: environ where
  "platform_env =
     map_of
       [(''MODE'', ''SageMaker''),
        (''SM_CHANNEL_TRAIN'', ''/opt/ml/input/data/train''),
        (''SM_MODEL_DIR'', ''/opt/ml/model'')]"

section \<open>Path resolution\<close>

lemma py_getitem_not_EnvironmentError: "py_getitem v k \<noteq> Inl EnvironmentError"
  by (cases v) (auto split: option.splits)

text \<open>
  Claim C10. For a configuration document whose mode is \<^verbatim>\<open>local\<close>, \<open>resolve_paths\<close>
  gives the same result in any two environments, never raises \<open>EnvironmentError\<close>, and
  returns exactly the data path and the output directory of the document's \<^verbatim>\<open>local\<close>
  section when the section holds them.
\<close>

theorem resolve_paths_local:
  assumes "map_of kvs ''mode'' = Some (JStr ''local'')"
  shows "resolve_paths env (JDict kvs) = resolve_paths env' (JDict kvs)
       \<and> resolve_paths env (JDict kvs) \<noteq> Inl EnvironmentError
       \<and> (map_of kvs ''local'' = Some (JDict loc) \<and> map_of loc ''data_path'' = Some data_path
              \<and> map_of loc ''out_dir'' = Some out_dir
            \<longrightarrow> resolve_paths env (JDict kvs) = Inr (data_path, out_dir))"
proof -
  have unfolded: "resolve_paths e (JDict kvs) =
      (case py_getitem (JDict kvs) ''local'' of
         Inl err \<Rightarrow> Inl err
       | Inr loc \<Rightarrow>
         (case py_getitem loc ''data_path'' of
            Inl err \<Rightarrow> Inl err
          | Inr data_path \<Rightarrow>
            (case py_getitem loc ''out_dir'' of
               Inl err \<Rightarrow> Inl err
             | Inr out_dir \<Rightarrow> Inr (data_path, out_dir))))" for e
    using assms by (simp add: resolve_paths_def)
  have independent: "resolve_paths env (JDict kvs) = resolve_paths env' (JDict kvs)"
    by (simp only: unfolded)
  have no_env_error: "resolve_paths env (JDict kvs) \<noteq> Inl EnvironmentError"
    unfolding unfolded
    by (auto simp: py_getitem_not_EnvironmentError split: sum.splits option.splits)
  have exact: "resolve_paths env (JDict kvs) = Inr (data_path, out_dir)"
    if "map_of kvs ''local'' = Some (JDict loc)" "map_of loc ''data_path'' = Some data_path"
       "map_of loc ''out_dir'' = Some out_dir"
    using that by (simp add: unfolded)
  from independent no_env_error exact show ?thesis by blast
qed

text \<open>The local-mode document resolved under the platform's environment and under the
  empty one.\<close>

theorem resolve_paths_local_witness:
  "resolve_paths platform_env local_config = Inr (JStr ''data/projects.csv'', JStr ''artifacts'')
   \<and> resolve_paths platform_env local_config = resolve_paths (map_of []) local_config
   \<and> resolve_paths platform_env local_config \<noteq> Inl EnvironmentError"
proof -
  let ?loc = "[(''data_path'', JStr ''data/projects.csv''), (''out_dir'', JStr ''artifacts'')]"
  let ?kvs = "[(''mode'', JStr ''local''),
            (''local'', JDict ?loc),
            (''sagemaker'', JDict [(''train_channel'', JStr ''SM_CHANNEL_TRAIN''),
                                   (''model_dir'', JStr ''SM_MODEL_DIR'')]),
            (''inference'', JDict [(''threshold'', JFloat (Finite 0.7))])]"
  have mode: "map_of ?kvs ''mode'' = Some (JStr ''local'')" by simp
  have sect: "map_of ?kvs ''local'' = Some (JDict ?loc)
    \<and> map_of ?loc ''data_path'' = Some (JStr ''data/projects.csv'')
    \<and> map_of ?loc ''out_dir'' = Some (JStr ''artifacts'')" by simp
  from resolve_paths_local [OF mode, of platform_env "map_of []" ?loc "JStr ''data/projects.csv''" "JStr ''artifacts''"] sect
  show ?thesis
    unfolding local_config_def by blast
qed

text \<open>
  Claim C2. For a document whose mode is \<^verbatim>\<open>sagemaker\<close> (the managed platform) and whose
  \<^verbatim>\<open>sagemaker\<close> section names two environment variables, \<open>resolve_paths\<close> raises
  \<open>EnvironmentError\<close> when either variable is unset or empty, and otherwise returns
  exactly the two values, the data path first and the output directory second.
\<close>

theorem resolve_paths_sagemaker:
  assumes "map_of kvs ''mode'' = Some (JStr ''sagemaker'')"
    and "map_of kvs ''sagemaker'' = Some (JDict sm)"
    and "map_of sm ''train_channel'' = Some (JStr train_var)"
    and "map_of sm ''model_dir'' = Some (JStr model_var)"
  shows "(env train_var = None \<or> env train_var = Some [] \<or> env model_var = None \<or> env model_var = Some []
            \<longrightarrow> resolve_paths env (JDict kvs) = Inl EnvironmentError)
       \<and> (env train_var = Some data_path \<and> data_path \<noteq> [] \<and> env model_var = Some out_dir \<and> out_dir \<noteq> []
            \<longrightarrow> resolve_paths env (JDict kvs) = Inr (JStr data_path, JStr out_dir))"
  using assms by (auto simp add: resolve_paths_def split: option.splits)

text \<open>Both variables set; the model directory unset; the model directory empty.\<close>

theorem resolve_paths_sagemaker_witness:
  "resolve_paths platform_env platform_config = Inr (JStr ''/opt/ml/input/data/train'', JStr ''/opt/ml/model'')
   \<and> resolve_paths (map_of [(''SM_CHANNEL_TRAIN'', ''/opt/ml/input/data/train'')]) platform_config = Inl EnvironmentError
   \<and> resolve_paths (map_of [(''SM_CHANNEL_TRAIN'', ''/opt/ml/input/data/train''), (''SM_MODEL_DIR'', '''')]) platform_config = Inl EnvironmentError"
proof -
  let ?sm = "[(''train_channel'', JStr ''SM_CHANNEL_TRAIN''), (''model_dir'', JStr ''SM_MODEL_DIR'')]"
  let ?kvs = "[(''mode'', JStr ''sagemaker''),
            (''local'', JDict [(''data_path'', JStr ''data/projects.csv''),
                               (''out_dir'', JStr ''artifacts'')]),
            (''sagemaker'', JDict ?sm),
            (''inference'', JDict [(''threshold'', JFloat (Finite 0.7))])]"
  have mode: "map_of ?kvs ''mode'' = Some (JStr ''sagemaker'')" by simp
  have sect: "map_of ?kvs ''sagemaker'' = Some (JDict ?sm)" by simp
  have train_var: "map_of ?sm ''train_channel'' = Some (JStr ''SM_CHANNEL_TRAIN'')" by simp
  have model_var: "map_of ?sm ''model_dir'' = Some (JStr ''SM_MODEL_DIR'')" by simp
  note claim = resolve_paths_sagemaker [OF mode sect train_var model_var]
  have both_set: "platform_env ''SM_CHANNEL_TRAIN'' = Some ''/opt/ml/input/data/train''
      \<and> platform_env ''SM_MODEL_DIR'' = Some ''/opt/ml/model''"
    by (simp add: platform_env_def)
  have unset: "map_of [(''SM_CHANNEL_TRAIN'', ''/opt/ml/input/data/train'')] ''SM_MODEL_DIR'' = None"
    by simp
  have empty: "map_of [(''SM_CHANNEL_TRAIN'', ''/opt/ml/input/data/train''), (''SM_MODEL_DIR'', '''')] ''SM_MODEL_DIR'' = Some []"
    by simp
  from claim [of platform_env "''/opt/ml/input/data/train''" "''/opt/ml/model''"] both_set
  have first: "resolve_paths platform_env platform_config = Inr (JStr ''/opt/ml/input/data/train'', JStr ''/opt/ml/model'')"
    unfolding platform_config_def by simp
  from claim [of "map_of [(''SM_CHANNEL_TRAIN'', ''/opt/ml/input/data/train'')]"] unset
  have second: "resolve_paths (map_of [(''SM_CHANNEL_TRAIN'', ''/opt/ml/input/data/train'')]) platform_config = Inl EnvironmentError"
    unfolding platform_config_def by blast
  from claim [of "map_of [(''SM_CHANNEL_TRAIN'', ''/opt/ml/input/data/train''), (''SM_MODEL_DIR'', '''')]"] empty
  have third: "resolve_paths (map_of [(''SM_CHANNEL_TRAIN'', ''/opt/ml/input/data/train''), (''SM_MODEL_DIR'', '''')]) platform_config = Inl EnvironmentError"
    unfolding platform_config_def by blast
  from first second third show ?thesis by blast
qed

section \<open>The decision threshold\<close>

text \<open>
  Claim C4, as stated, fails: a document whose threshold entry is \<^verbatim>\<open>null\<close> makes
  \<open>threshold\<close> raise \<open>TypeError\<close>; it does not return the default.
\<close>

theorem threshold_null_raises:
  "threshold sample_runtime null_threshold_config = Inl TypeError
   \<and> threshold sample_runtime null_threshold_config \<noteq> Inr (Finite 0.5)"
  by (simp add: threshold_def null_threshold_config_def)

text \<open>
  Claim C4, amended. \<open>threshold\<close> returns the default 0.5 when the \<^verbatim>\<open>inference\<close> section
  or its \<^verbatim>\<open>threshold\<close> entry is absent; it returns a float entry unchanged and any other
  entry as \<^verbatim>\<open>float()\<close> converts it; and it raises on a malformed entry: \<open>TypeError\<close>
  for \<^verbatim>\<open>null\<close>, a list or a mapping, \<open>AttributeError\<close> when the \<^verbatim>\<open>inference\<close> section is
  not a mapping.
\<close>

theorem threshold_cases:
  "(map_of kvs ''inference'' = None \<longrightarrow> threshold R (JDict kvs) = Inr (Finite 0.5))
   \<and> (map_of kvs ''inference'' = Some (JDict sect) \<and> map_of sect ''threshold'' = None
        \<longrightarrow> threshold R (JDict kvs) = Inr (Finite 0.5))
   \<and> (map_of kvs ''inference'' = Some (JDict sect) \<and> map_of sect ''threshold'' = Some (JFloat x)
        \<longrightarrow> threshold R (JDict kvs) = Inr x)
   \<and> (map_of kvs ''inference'' = Some (JDict sect) \<and> map_of sect ''threshold'' = Some t
        \<longrightarrow> threshold R (JDict kvs) = py_float R t)
   \<and> (map_of kvs ''inference'' = Some (JDict sect) \<and> map_of sect ''threshold'' = Some t
        \<and> (t = JNull \<or> t = JList xs \<or> t = JDict d)
        \<longrightarrow> threshold R (JDict kvs) = Inl TypeError)
   \<and> (map_of kvs ''inference'' = Some v \<and> (case v of JDict d' \<Rightarrow> False | _ \<Rightarrow> True)
        \<longrightarrow> threshold R (JDict kvs) = Inl AttributeError)"
proof -
  have absent_section: "threshold R (JDict kvs) = Inr (Finite 0.5)"
    if "map_of kvs ''inference'' = None"
    using that by (simp add: threshold_def)
  have absent_entry: "threshold R (JDict kvs) = Inr (Finite 0.5)"
    if "map_of kvs ''inference'' = Some (JDict sect)" "map_of sect ''threshold'' = None"
    using that by (simp add: threshold_def)
  have present: "threshold R (JDict kvs) = py_float R t'"
    if "map_of kvs ''inference'' = Some (JDict sect)" "map_of sect ''threshold'' = Some t'" for t'
    using that by (simp add: threshold_def)
  have not_mapping: "threshold R (JDict kvs) = Inl AttributeError"
    if "map_of kvs ''inference'' = Some v" "case v of JDict d' \<Rightarrow> False | _ \<Rightarrow> True"
    using that by (cases v) (simp_all add: threshold_def)
  from absent_section absent_entry present [of "JFloat x"] present [of t] not_mapping
  show ?thesis by auto
qed

text \<open>A configured threshold, the two absent cases and the two malformed ones.\<close>

theorem threshold_cases_witness:
  "threshold sample_runtime local_config = Inr (Finite 0.7)
   \<and> threshold sample_runtime (JDict [(''mode'', JStr ''local'')]) = Inr (Finite 0.5)
   \<and> threshold sample_runtime (JDict [(''mode'', JStr ''local''), (''inference'', JDict [])]) = Inr (Finite 0.5)
   \<and> threshold sample_runtime (JDict [(''mode'', JStr ''local''), (''inference'', JDict [(''threshold'', JNull)])]) = Inl TypeError
   \<and> threshold sample_runtime (JDict [(''mode'', JStr ''local''), (''inference'', JList [])]) = Inl AttributeError"
proof -
  let ?base = "(''mode'', JStr ''local'')"
  have a: "threshold sample_runtime local_config = Inr (Finite 0.7)"
    using threshold_cases [where R = sample_runtime and sect = "[(''threshold'', JFloat (Finite 0.7))]"
        and x = "Finite 0.7"]
    unfolding local_config_def by simp
  have b: "threshold sample_runtime (JDict [?base]) = Inr (Finite 0.5)"
    using threshold_cases [where R = sample_runtime and kvs = "[?base]"] by simp
  have c: "threshold sample_runtime (JDict [?base, (''inference'', JDict [])]) = Inr (Finite 0.5)"
    using threshold_cases [where R = sample_runtime and kvs = "[?base, (''inference'', JDict [])]"
        and sect = "[]"] by simp
  have d: "threshold sample_runtime (JDict [?base, (''inference'', JDict [(''threshold'', JNull)])]) = Inl TypeError"
    using threshold_cases [where R = sample_runtime
        and kvs = "[?base, (''inference'', JDict [(''threshold'', JNull)])]"
        and sect = "[(''threshold'', JNull)]" and t = JNull]
    by simp
  have e: "threshold sample_runtime (JDict [?base, (''inference'', JList [])]) = Inl AttributeError"
    using threshold_cases [where R = sample_runtime and kvs = "[?base, (''inference'', JList [])]"
        and v = "JList []"]
    by simp
  from a b c d e show ?thesis by blast
qed

section \<open>Loading the configuration\<close>

text \<open>
  Claim C3, as stated, fails when \<^verbatim>\<open>MODE\<close> is set to the empty string: the code keeps the
  document's mode and returns the document, where the specification's reading replaces
  the mode by the empty string and fails.
\<close>

theorem load_config_empty_MODE:
  "load_config sample_runtime sample_fs (map_of [(''MODE'', '''')]) (Some ''config.json'') = Inr local_config
   \<and> load_as_specified sample_runtime (map_of [(''MODE'', '''')]) local_config = Inl ValueError"
  by (simp add: load_config_def load_as_specified_def config_location_def read_file_def sample_fs_def
      sample_runtime_def sample_json_loads_def local_config_def ascii_lower_def)

text \<open>
  Claim C3, amended. For a document that is a mapping, \<open>load_config\<close> replaces the mode by
  the lower-cased value of \<^verbatim>\<open>MODE\<close> when that variable is set and not empty, and keeps
  the document's mode otherwise; it raises \<open>ValueError\<close> exactly when the resulting mode
  is missing or is neither \<^verbatim>\<open>local\<close> nor \<^verbatim>\<open>sagemaker\<close>, and returns the document (with
  the resulting mode) when it is one of the two.
\<close>

theorem load_config_mode:
  assumes "read_file fs (config_location R env config_path) = Inr text"
    and "json_loads R text = Inr (JDict kvs)"
  shows "(env ''MODE'' = Some v \<and> v \<noteq> [] \<longrightarrow>
            load_config R fs env config_path =
              (if str_lower R v = ''local'' \<or> str_lower R v = ''sagemaker''
               then Inr (JDict (AList.update ''mode'' (JStr (str_lower R v)) kvs))
               else Inl ValueError))
       \<and> (env ''MODE'' = None \<or> env ''MODE'' = Some [] \<longrightarrow>
            load_config R fs env config_path =
              (if map_of kvs ''mode'' = Some (JStr ''local'') \<or> map_of kvs ''mode'' = Some (JStr ''sagemaker'')
               then Inr (JDict kvs)
               else Inl ValueError))"
proof -
  have overridden: "load_config R fs env config_path =
      (if str_lower R v = ''local'' \<or> str_lower R v = ''sagemaker''
       then Inr (JDict (AList.update ''mode'' (JStr (str_lower R v)) kvs))
       else Inl ValueError)"
    if "env ''MODE'' = Some v" "v \<noteq> []"
    using assms that by (simp add: load_config_def update_conv')
  have kept: "load_config R fs env config_path =
      (if map_of kvs ''mode'' = Some (JStr ''local'') \<or> map_of kvs ''mode'' = Some (JStr ''sagemaker'')
       then Inr (JDict kvs)
       else Inl ValueError)"
    if "env ''MODE'' = None \<or> env ''MODE'' = Some []"
    using assms that by (auto simp add: load_config_def split: option.splits)
  from overridden kept show ?thesis by blast
qed

lemma sample_config_file:
  "read_file sample_fs (config_location sample_runtime env (Some ''config.json'')) = Inr local_config_text
   \<and> json_loads sample_runtime local_config_text
      = Inr (JDict [(''mode'', JStr ''local''),
            (''local'', JDict [(''data_path'', JStr ''data/projects.csv''),
                               (''out_dir'', JStr ''artifacts'')]),
            (''sagemaker'', JDict [(''train_channel'', JStr ''SM_CHANNEL_TRAIN''),
                                   (''model_dir'', JStr ''SM_MODEL_DIR'')]),
            (''inference'', JDict [(''threshold'', JFloat (Finite 0.7))])])"
  by (simp add: config_location_def read_file_def sample_fs_def sample_runtime_def
      sample_json_loads_def local_config_def)

lemma ascii_lower_samples:
  "ascii_lower ''SageMaker'' = ''sagemaker'' \<and> ascii_lower ''Staging'' = ''staging''"
  by (simp add: ascii_lower_def)

text \<open>An override to a recognized mode, to an unrecognized one, no override, and an
  empty override.\<close>

theorem load_config_mode_witness:
  "load_config sample_runtime sample_fs platform_env (Some ''config.json'') = Inr platform_config
   \<and> load_config sample_runtime sample_fs (map_of [(''MODE'', ''Staging'')]) (Some ''config.json'') = Inl ValueError
   \<and> load_config sample_runtime sample_fs (map_of []) (Some ''config.json'') = Inr local_config
   \<and> load_config sample_runtime sample_fs (map_of [(''MODE'', '''')]) (Some ''config.json'') = Inr local_config"
proof -
  note cfg_file = sample_config_file [THEN conjunct1] sample_config_file [THEN conjunct2]
  note claim = load_config_mode [OF cfg_file]
  have lower: "str_lower sample_runtime ''SageMaker'' = ''sagemaker''"
    "str_lower sample_runtime ''Staging'' = ''staging''"
    using ascii_lower_samples by (simp_all add: sample_runtime_def)
  have first: "load_config sample_runtime sample_fs platform_env (Some ''config.json'') = Inr platform_config"
    using claim [where env = platform_env and v = "''SageMaker''"] lower
    by (simp add: platform_env_def platform_config_def)
  have second: "load_config sample_runtime sample_fs (map_of [(''MODE'', ''Staging'')]) (Some ''config.json'') = Inl ValueError"
    using claim [where env = "map_of [(''MODE'', ''Staging'')]" and v = "''Staging''"] lower
    by simp
  have third: "load_config sample_runtime sample_fs (map_of []) (Some ''config.json'') = Inr local_config"
    using claim [where env = "map_of []"] by (simp add: local_config_def)
  have fourth: "load_config sample_runtime sample_fs (map_of [(''MODE'', '''')]) (Some ''config.json'') = Inr local_config"
    using claim [where env = "map_of [(''MODE'', '''')]"] by (simp add: local_config_def)
  from first second third fourth show ?thesis by blast
qed

section \<open>The inference contract\<close>

text \<open>
  Claim C5. When the artifact in the model directory deserializes, \<open>model_fn\<close> always
  returns it with a threshold attached: 0.5 when \<open>load_config\<close> fails, the threshold of
  the configuration when loading succeeds and \<open>threshold\<close> returns one, and 0.5 again when
  \<open>threshold\<close> raises. No failure of the configuration makes \<open>model_fn\<close> fail.
\<close>

theorem model_fn_attaches_threshold:
  assumes "read_file fs (path_join model_dir ''model.joblib'') = Inr bytes"
    and "joblib_loads R bytes = Inr m"
  shows "(\<exists>t. model_fn R fs env model_dir = Inr (m\<lparr>decision_threshold := Some t\<rparr>))
       \<and> (load_config R fs env None = Inl e
            \<longrightarrow> model_fn R fs env model_dir = Inr (m\<lparr>decision_threshold := Some (Finite 0.5)\<rparr>))
       \<and> (load_config R fs env None = Inr cfg \<and> threshold R cfg = Inr t
            \<longrightarrow> model_fn R fs env model_dir = Inr (m\<lparr>decision_threshold := Some t\<rparr>))
       \<and> (load_config R fs env None = Inr cfg \<and> threshold R cfg = Inl e
            \<longrightarrow> model_fn R fs env model_dir = Inr (m\<lparr>decision_threshold := Some (Finite 0.5)\<rparr>))"
proof -
  have loaded: "model_fn R fs env model_dir =
      (case load_config R fs env None of
         Inl e \<Rightarrow> Inr (m\<lparr>decision_threshold := Some (Finite 0.5)\<rparr>)
       | Inr cfg \<Rightarrow>
         (case threshold R cfg of
            Inl e \<Rightarrow> Inr (m\<lparr>decision_threshold := Some (Finite 0.5)\<rparr>)
          | Inr t \<Rightarrow> Inr (m\<lparr>decision_threshold := Some t\<rparr>)))"
    using assms by (simp add: model_fn_def)
  have always: "\<exists>t. model_fn R fs env model_dir = Inr (m\<lparr>decision_threshold := Some t\<rparr>)"
    unfolding loaded by (fastforce split: sum.splits)
  have config_fails: "model_fn R fs env model_dir = Inr (m\<lparr>decision_threshold := Some (Finite 0.5)\<rparr>)"
    if "load_config R fs env None = Inl e"
    using that by (simp add: loaded)
  have configured: "model_fn R fs env model_dir = Inr (m\<lparr>decision_threshold := Some t\<rparr>)"
    if "load_config R fs env None = Inr cfg" "threshold R cfg = Inr t"
    using that by (simp add: loaded)
  have malformed: "model_fn R fs env model_dir = Inr (m\<lparr>decision_threshold := Some (Finite 0.5)\<rparr>)"
    if "load_config R fs env None = Inr cfg" "threshold R cfg = Inl e"
    using that by (simp add: loaded)
  from always config_fails configured malformed show ?thesis by blast
qed

lemma sample_load_default:
  "load_config sample_runtime sample_fs (map_of []) None = Inr local_config"
  by (simp add: load_config_def config_location_def read_file_def sample_fs_def sample_runtime_def
      sample_json_loads_def local_config_def)

lemma sample_load_missing:
  "load_config sample_runtime sample_fs (map_of [(''APP_CONFIG_PATH'', ''missing.json'')]) None
     = Inl FileNotFoundError"
  by (simp add: load_config_def config_location_def read_file_def sample_fs_def)

lemma sample_load_broken:
  "load_config sample_runtime sample_fs (map_of [(''APP_CONFIG_PATH'', ''broken.json'')]) None
     = Inr null_threshold_config"
  by (simp add: load_config_def config_location_def read_file_def sample_fs_def sample_runtime_def
      sample_json_loads_def null_threshold_config_def null_threshold_text_def local_config_text_def)

lemma sample_artifact:
  "read_file sample_fs (path_join ''/opt/ml/model'' ''model.joblib'') = Inr ''xgboost-pipeline''
   \<and> joblib_loads sample_runtime ''xgboost-pipeline'' = Inr (constant_model 0.7 1)"
  by (simp add: read_file_def path_join_def sample_fs_def sample_runtime_def sample_joblib_loads_def)

text \<open>The default configuration, a missing configuration file, and a configuration with a
  malformed threshold.\<close>

theorem model_fn_attaches_threshold_witness:
  "model_fn sample_runtime sample_fs (map_of []) ''/opt/ml/model''
     = Inr ((constant_model 0.7 1)\<lparr>decision_threshold := Some (Finite 0.7)\<rparr>)
   \<and> model_fn sample_runtime sample_fs (map_of [(''APP_CONFIG_PATH'', ''missing.json'')]) ''/opt/ml/model''
     = Inr ((constant_model 0.7 1)\<lparr>decision_threshold := Some (Finite 0.5)\<rparr>)
   \<and> model_fn sample_runtime sample_fs (map_of [(''APP_CONFIG_PATH'', ''broken.json'')]) ''/opt/ml/model''
     = Inr ((constant_model 0.7 1)\<lparr>decision_threshold := Some (Finite 0.5)\<rparr>)"
proof -
  note artifact = sample_artifact [THEN conjunct1] sample_artifact [THEN conjunct2]
  note claim = model_fn_attaches_threshold [OF artifact]
  have configured: "threshold sample_runtime local_config = Inr (Finite 0.7)"
    by (simp add: threshold_def local_config_def)
  have malformed: "threshold sample_runtime null_threshold_config = Inl TypeError"
    by (simp add: threshold_def null_threshold_config_def)
  from claim [where env = "map_of []" and cfg = local_config and t = "Finite 0.7"]
    sample_load_default configured
  have first: "model_fn sample_runtime sample_fs (map_of []) ''/opt/ml/model''
     = Inr ((constant_model 0.7 1)\<lparr>decision_threshold := Some (Finite 0.7)\<rparr>)"
    by blast
  from claim [where env = "map_of [(''APP_CONFIG_PATH'', ''missing.json'')]" and e = FileNotFoundError]
    sample_load_missing
  have second: "model_fn sample_runtime sample_fs (map_of [(''APP_CONFIG_PATH'', ''missing.json'')]) ''/opt/ml/model''
     = Inr ((constant_model 0.7 1)\<lparr>decision_threshold := Some (Finite 0.5)\<rparr>)"
    by blast
  from claim [where env = "map_of [(''APP_CONFIG_PATH'', ''broken.json'')]" and e = TypeError
      and cfg = null_threshold_config]
    sample_load_broken malformed
  have third: "model_fn sample_runtime sample_fs (map_of [(''APP_CONFIG_PATH'', ''broken.json'')]) ''/opt/ml/model''
     = Inr ((constant_model 0.7 1)\<lparr>decision_threshold := Some (Finite 0.5)\<rparr>)"
    by blast
  from first second third show ?thesis by blast
qed

text \<open>
  What \<open>input_fn\<close> does on every other input: an error of \<^verbatim>\<open>json.loads\<close> is passed on
  (a \<open>JSONDecodeError\<close>, which is a \<open>ValueError\<close>), a mapping gives a table of one row, a list
  gives what \<^verbatim>\<open>np.array\<close> makes of it, and a wrong content type, a missing \<^verbatim>\<open>features\<close>
  field or one of another type raise \<open>ValueError\<close>.
\<close>

lemma input_fn_cases:
  "(ct \<noteq> ''application/json'' \<longrightarrow> input_fn R body ct = Inl ValueError)
   \<and> (json_loads R body = Inl e \<longrightarrow> input_fn R body ''application/json'' = Inl e)
   \<and> (json_loads R body = Inr (JDict kvs) \<and> map_of kvs ''features'' = Some (JDict d)
        \<longrightarrow> input_fn R body ''application/json'' = Inr (Table [d]))
   \<and> (json_loads R body = Inr (JDict kvs) \<and> map_of kvs ''features'' = Some (JList xs)
        \<longrightarrow> input_fn R body ''application/json'' =
            (case np_array_float R (JList [JList xs]) of Inl e' \<Rightarrow> Inl e' | Inr a \<Rightarrow> Inr (Array a)))
   \<and> (json_loads R body = Inr (JDict kvs) \<and> map_of kvs ''features'' = None
        \<longrightarrow> input_fn R body ''application/json'' = Inl ValueError)
   \<and> (json_loads R body = Inr (JDict kvs) \<and> map_of kvs ''features'' = Some v
        \<and> (case v of JDict d' \<Rightarrow> False | JList xs' \<Rightarrow> False | _ \<Rightarrow> True)
        \<longrightarrow> input_fn R body ''application/json'' = Inl ValueError)"
  by (cases v) (simp_all add: input_fn_def)

lemma input_fn_samples:
  "input_fn sample_runtime named_request_text ''application/json''
     = Inr (Table [[(''project_type'', JStr ''infra''), (''team_size'', JInt 5)]])"
  "input_fn sample_runtime list_request_text ''application/json''
     = Inr (Array (NdArray [NdArray [Scalar (Finite 5), Scalar (Finite 0.25)]]))"
  "input_fn sample_runtime scalar_request_text ''application/json'' = Inl ValueError"
  "input_fn sample_runtime named_request_text ''text/plain'' = Inl ValueError"
  by (simp_all add: input_fn_def sample_runtime_def sample_json_loads_def sample_np_array_float_def
      named_request_text_def list_request_text_def scalar_request_text_def local_config_text_def
      null_threshold_text_def)

text \<open>
  Claim C6 at the input where the code departs from it. A request of content type
  \<^verbatim>\<open>application/json\<close> whose body parses to anything but an object (a JSON array, say)
  makes \<open>input_fn\<close> raise \<open>AttributeError\<close>, which is not a \<open>ValueError\<close>.
\<close>

theorem input_fn_payload_not_object:
  assumes "json_loads R body = Inr payload"
    and "case payload of JDict d \<Rightarrow> False | _ \<Rightarrow> True"
  shows "input_fn R body ''application/json'' = Inl AttributeError \<and> \<not> is_ValueError AttributeError"
  using assms by (cases payload) (simp_all add: input_fn_def is_ValueError_def)

text \<open>The body \<^verbatim>\<open>[1, 2]\<close>.\<close>

theorem input_fn_payload_not_object_witness:
  "input_fn sample_runtime array_body_text ''application/json'' = Inl AttributeError
   \<and> input_fn sample_runtime array_body_text ''application/json'' \<noteq> Inl ValueError"
proof -
  have parsed: "json_loads sample_runtime array_body_text = Inr (JList [JInt 1, JInt 2])"
    by (simp add: sample_runtime_def sample_json_loads_def array_body_text_def local_config_text_def
        null_threshold_text_def named_request_text_def list_request_text_def scalar_request_text_def)
  from input_fn_payload_not_object [OF parsed] show ?thesis by simp
qed

text \<open>
  Claim C1. When the model's probability output for the input has the positive-class
  probability \<open>p\<close> at row 0, column 1, and the threshold \<open>thr\<close> is attached to the model,
  \<open>predict_fn\<close> returns the prediction, \<open>p\<close> and \<open>thr\<close>; the prediction is 1 exactly when
  \<open>p >= thr\<close> (for finite values: when \<open>thr \<le> p\<close>) and 0 otherwise; and the result depends
  on nothing but the model's probability output and its attached threshold.
\<close>

theorem predict_fn_threshold:
  assumes "predict_proba m x = Inr rows"
    and "matrix_0_1 rows = Inr p"
    and "decision_threshold m = Some thr"
  shows "predict_fn x m = Inr \<lparr>prediction = (if py_ge p thr then 1 else 0), proba = p, threshold_used = thr\<rparr>
       \<and> (predict_fn x m = Inr r \<longrightarrow> (prediction r = 1 \<longleftrightarrow> py_ge p thr) \<and> (prediction r = 0 \<longleftrightarrow> \<not> py_ge p thr))
       \<and> (p = Finite a \<and> thr = Finite t \<and> predict_fn x m = Inr r \<longrightarrow> (prediction r = 1 \<longleftrightarrow> t \<le> a))
       \<and> (predict_proba m' x = predict_proba m x \<and> decision_threshold m' = decision_threshold m
            \<longrightarrow> predict_fn x m' = predict_fn x m)"
proof -
  have result: "predict_fn x m =
      Inr \<lparr>prediction = (if py_ge p thr then 1 else 0), proba = p, threshold_used = thr\<rparr>"
    using assms by (simp add: predict_fn_def)
  have label: "(prediction r = 1 \<longleftrightarrow> py_ge p thr) \<and> (prediction r = 0 \<longleftrightarrow> \<not> py_ge p thr)"
    if "predict_fn x m = Inr r"
    using that result by (auto split: if_splits)
  have finite_label: "prediction r = 1 \<longleftrightarrow> t \<le> a"
    if "p = Finite a" "thr = Finite t" "predict_fn x m = Inr r"
    using that label by simp
  have pure: "predict_fn x m' = predict_fn x m"
    if "predict_proba m' x = predict_proba m x" "decision_threshold m' = decision_threshold m"
    unfolding predict_fn_def that by (rule refl)
  from result label finite_label pure show ?thesis by blast
qed

text \<open>A probability of exactly 0.7 against the threshold 0.7 is positive; 0.6999 is
  negative.\<close>

theorem predict_fn_threshold_witness:
  "predict_fn (Table [[(''team_size'', JInt 5)]]) ((constant_model 0.7 1)\<lparr>decision_threshold := Some (Finite 0.7)\<rparr>)
     = Inr \<lparr>prediction = 1, proba = Finite 0.7, threshold_used = Finite 0.7\<rparr>
   \<and> predict_fn (Table [[(''team_size'', JInt 5)]]) ((constant_model 0.6999 1)\<lparr>decision_threshold := Some (Finite 0.7)\<rparr>)
     = Inr \<lparr>prediction = 0, proba = Finite 0.6999, threshold_used = Finite 0.7\<rparr>"
proof -
  let ?x = "Table [[(''team_size'', JInt 5)]]"
  have at_threshold: "predict_fn ?x ((constant_model 0.7 1)\<lparr>decision_threshold := Some (Finite 0.7)\<rparr>)
     = Inr \<lparr>prediction = 1, proba = Finite 0.7, threshold_used = Finite 0.7\<rparr>"
    using predict_fn_threshold [where m = "(constant_model 0.7 1)\<lparr>decision_threshold := Some (Finite 0.7)\<rparr>"
        and x = ?x and rows = "[[Finite (1 - 0.7), Finite 0.7]]" and p = "Finite 0.7" and thr = "Finite 0.7"]
    by (simp add: constant_model_def matrix_0_1_def)
  have below: "predict_fn ?x ((constant_model 0.6999 1)\<lparr>decision_threshold := Some (Finite 0.7)\<rparr>)
     = Inr \<lparr>prediction = 0, proba = Finite 0.6999, threshold_used = Finite 0.7\<rparr>"
    using predict_fn_threshold [where m = "(constant_model 0.6999 1)\<lparr>decision_threshold := Some (Finite 0.7)\<rparr>"
        and x = ?x and rows = "[[Finite (1 - 0.6999), Finite 0.6999]]" and p = "Finite 0.6999" and thr = "Finite 0.7"]
    by (simp add: constant_model_def matrix_0_1_def)
  from at_threshold below show ?thesis by blast
qed

section \<open>The training data loader\<close>

lemma sort_eq_Nil:
  fixes xs :: "string list"
  assumes "sort xs = []"
  shows "xs = []"
proof -
  have "set xs = set (sort xs)"
    by simp
  also have "\<dots> = {}"
    by (simp only: assms list.set)
  finally show ?thesis
    by simp
qed

lemma hd_sort_least:
  fixes xs :: "string list"
  assumes "xs \<noteq> []"
  shows "hd (sort xs) \<in> set xs \<and> (\<forall>x \<in> set xs. hd (sort xs) \<le> x)"
proof -
  from assms have "sort xs \<noteq> []"
    using sort_eq_Nil by blast
  then obtain y ys where split: "sort xs = y # ys"
    by (cases "sort xs") simp_all
  have "sorted (y # ys)"
    using sorted_sort [of xs] by (simp only: split)
  then have least: "\<forall>x \<in> set (y # ys). y \<le> x"
    by simp
  have same: "set (y # ys) = set xs"
    using set_sort [of "\<lambda>x. x" xs] by (simp only: split)
  from least same have "y \<in> set xs \<and> (\<forall>x \<in> set xs. y \<le> x)"
    by (metis list.set_intros(1))
  then show ?thesis
    unfolding split by simp
qed

lemma fnmatch_star_csv_iff: "fnmatch_star_csv name \<longleftrightarrow> (\<exists>stem. name = stem @ ''.csv'')"
proof
  assume "fnmatch_star_csv name"
  then have "name = take (length name - 4) name @ ''.csv''"
    unfolding fnmatch_star_csv_def by (metis append_take_drop_id)
  then show "\<exists>stem. name = stem @ ''.csv''" ..
next
  assume "\<exists>stem. name = stem @ ''.csv''"
  then show "fnmatch_star_csv name"
    by (auto simp: fnmatch_star_csv_def)
qed

lemma path_split_star_csv:
  assumes "p \<noteq> []" and "last p \<noteq> CHR ''/''"
  shows "path_split (path_join p ''*.csv'') = (p, ''*.csv'')"
proof -
  have joined: "path_join p ''*.csv'' = p @ ''/*.csv''"
    using assms by (simp add: path_join_def)
  have tail: "rev (takeWhile (\<lambda>c. c \<noteq> CHR ''/'') (rev (p @ ''/*.csv''))) = ''*.csv''"
    by simp
  have head: "take (length (p @ ''/*.csv'') - length ''*.csv'') (p @ ''/*.csv'') = p @ ''/''"
    by simp
  from assms have some: "\<not> list_all (\<lambda>c. c = CHR ''/'') (p @ ''/'')"
    by (cases p rule: rev_cases) simp_all
  from assms have strip: "rev (dropWhile (\<lambda>c. c = CHR ''/'') (rev (p @ ''/''))) = p"
    by (cases p rule: rev_cases) simp_all
  show ?thesis
    unfolding path_split_def joined Let_def tail head using some strip by simp
qed

lemma glob_star_csv_plain:
  assumes "fst (path_split pathname) = d" and "d \<noteq> []" and "\<not> has_magic d"
  shows "glob_star_csv R fs pathname = map (path_join d) (glob1_star_csv fs d)"
  using assms by (simp add: glob_star_csv_def Let_def)

lemma glob1_star_csv_set:
  "set (glob1_star_csv fs d) = {name \<in> set (listdir fs d). \<not> ishidden name \<and> fnmatch_star_csv name}"
  by (auto simp: glob1_star_csv_def)

lemma read_table_cases:
  "(fs q = None \<longrightarrow> read_table R fs q = Inl FileNotFoundError)
   \<and> (fs q = Some (Dir names) \<longrightarrow> read_table R fs q = Inl IsADirectoryError)
   \<and> (fs q = Some (File content) \<and> parse_csv R content = Inl e \<longrightarrow> read_table R fs q = Inl e)
   \<and> (fs q = Some (File content) \<and> parse_csv R content = Inr df \<and> map_of df ''is_late'' = None
        \<longrightarrow> read_table R fs q = Inl KeyError)
   \<and> (fs q = Some (File content) \<and> parse_csv R content = Inr df \<and> map_of df ''is_late'' = Some col
        \<longrightarrow> read_table R fs q = Inr (filter (\<lambda>(name, c). name \<noteq> ''is_late'') df, cells col))"
  by (simp add: read_table_def read_file_def)

lemma sample_directories:
  "path_split (path_join ''/opt/ml/input/data/train'' ''*.csv'') = (''/opt/ml/input/data/train'', ''*.csv'')"
  "path_split (path_join ''/opt/ml/input/data/empty'' ''*.csv'') = (''/opt/ml/input/data/empty'', ''*.csv'')"
  "path_split (path_join ''/opt/ml/input/data/hidden'' ''*.csv'') = (''/opt/ml/input/data/hidden'', ''*.csv'')"
  "path_split (path_join ''/opt/ml/input/data/mixed'' ''*.csv'') = (''/opt/ml/input/data/mixed'', ''*.csv'')"
  "path_split (path_join ''/opt/ml/input/data/br[1]'' ''*.csv'') = (''/opt/ml/input/data/br[1]'', ''*.csv'')"
  by (rule path_split_star_csv; simp)+

lemma sample_listings:
  "sample_fs ''/opt/ml/input/data/train'' = Some (Dir [''part-b.csv'', ''notes.txt'', ''part-a.csv''])"
  "sample_fs ''/opt/ml/input/data/empty'' = Some (Dir [])"
  "sample_fs ''/opt/ml/input/data/hidden'' = Some (Dir [''.part.csv''])"
  "sample_fs ''/opt/ml/input/data/mixed'' = Some (Dir [''b.csv'', ''a.csv''])"
  "sample_fs ''/opt/ml/input/data/br[1]'' = Some (Dir [''a.csv''])"
  "sample_fs ''/opt/ml/input/data/br1'' = None"
  "sample_fs ''/opt/ml/input/data/hidden/.part.csv'' = Some (File projects_csv_text)"
  "sample_fs ''/opt/ml/input/data/mixed/a.csv'' = Some (Dir [])"
  "sample_fs ''/opt/ml/input/data/mixed/b.csv'' = Some (File projects_csv_text)"
  "sample_fs ''/opt/ml/input/data/train/part-a.csv'' = Some (File projects_csv_text)"
  by (simp_all add: sample_fs_def)

lemma sample_names:
  "fnmatch_star_csv ''part-a.csv''" "fnmatch_star_csv ''part-b.csv''" "\<not> fnmatch_star_csv ''notes.txt''"
  "fnmatch_star_csv ''.part.csv''" "fnmatch_star_csv ''a.csv''" "fnmatch_star_csv ''b.csv''"
  "\<not> ishidden ''part-a.csv''" "\<not> ishidden ''part-b.csv''" "\<not> ishidden ''notes.txt''"
  "ishidden ''.part.csv''" "\<not> ishidden ''a.csv''" "\<not> ishidden ''b.csv''"
  by (simp_all add: fnmatch_star_csv_def ishidden_def)

lemma sample_joins:
  "path_join ''/opt/ml/input/data/train'' ''part-a.csv'' = ''/opt/ml/input/data/train/part-a.csv''"
  "path_join ''/opt/ml/input/data/train'' ''part-b.csv'' = ''/opt/ml/input/data/train/part-b.csv''"
  "path_join ''/opt/ml/input/data/hidden'' ''.part.csv'' = ''/opt/ml/input/data/hidden/.part.csv''"
  "path_join ''/opt/ml/input/data/mixed'' ''a.csv'' = ''/opt/ml/input/data/mixed/a.csv''"
  "path_join ''/opt/ml/input/data/mixed'' ''b.csv'' = ''/opt/ml/input/data/mixed/b.csv''"
  by (simp_all add: path_join_def)

lemma sample_order:
  "\<not> ''/opt/ml/input/data/train/part-b.csv'' \<le> ''/opt/ml/input/data/train/part-a.csv''"
  "\<not> ''/opt/ml/input/data/mixed/b.csv'' \<le> ''/opt/ml/input/data/mixed/a.csv''"
  by code_simp+

lemma sample_projects_table:
  "read_table sample_runtime sample_fs ''/opt/ml/input/data/hidden/.part.csv'' =
     Inr ([(''project_type'', Column True [JStr ''infra'', JStr ''web'']),
           (''team_size'', Column False [JInt 5, JInt 3])], [JInt 1, JInt 1])"
  "read_table sample_runtime sample_fs ''/opt/ml/input/data/mixed/b.csv'' =
     Inr ([(''project_type'', Column True [JStr ''infra'', JStr ''web'']),
           (''team_size'', Column False [JInt 5, JInt 3])], [JInt 1, JInt 1])"
  "read_table sample_runtime sample_fs ''/opt/ml/input/data/train/part-a.csv'' =
     Inr ([(''project_type'', Column True [JStr ''infra'', JStr ''web'']),
           (''team_size'', Column False [JInt 5, JInt 3])], [JInt 1, JInt 1])"
  "read_table sample_runtime sample_fs ''/opt/ml/input/data/mixed/a.csv'' = Inl IsADirectoryError"
  by (simp_all add: read_table_def read_file_def sample_listings sample_runtime_def
      sample_parse_csv_def)

text \<open>
  Claim C9, as stated, fails on two directories. One holds only the file \<^verbatim>\<open>.part.csv\<close>:
  \<^verbatim>\<open>glob\<close> skips names that begin with a dot, so \<open>load_csv\<close> raises \<open>FileNotFoundError\<close>
  although the directory holds a file with the extension. The other holds a sub-directory
  \<^verbatim>\<open>a.csv\<close> and a file \<^verbatim>\<open>b.csv\<close>: \<^verbatim>\<open>glob\<close> matches directories too, so \<open>load_csv\<close> takes
  \<^verbatim>\<open>a.csv\<close> and raises \<open>IsADirectoryError\<close> instead of reading the first file. The
  specification's reading reads the table in both.
\<close>

theorem load_csv_hidden_file_and_directory_entry:
  "load_csv sample_runtime sample_fs ''/opt/ml/input/data/hidden'' = Inl FileNotFoundError
   \<and> load_csv_as_specified sample_runtime sample_fs ''/opt/ml/input/data/hidden'' =
       Inr ([(''project_type'', Column True [JStr ''infra'', JStr ''web'']),
             (''team_size'', Column False [JInt 5, JInt 3])], [JInt 1, JInt 1])
   \<and> load_csv sample_runtime sample_fs ''/opt/ml/input/data/mixed'' = Inl IsADirectoryError
   \<and> load_csv_as_specified sample_runtime sample_fs ''/opt/ml/input/data/mixed'' =
       Inr ([(''project_type'', Column True [JStr ''infra'', JStr ''web'']),
             (''team_size'', Column False [JInt 5, JInt 3])], [JInt 1, JInt 1])"
proof -
  have hidden_code: "load_csv sample_runtime sample_fs ''/opt/ml/input/data/hidden'' = Inl FileNotFoundError"
    by (simp add: load_csv_def isdir_def listdir_def glob_star_csv_def glob1_star_csv_def has_magic_def
        sample_directories sample_listings sample_names)
  have hidden_spec: "load_csv_as_specified sample_runtime sample_fs ''/opt/ml/input/data/hidden'' =
       Inr ([(''project_type'', Column True [JStr ''infra'', JStr ''web'']),
             (''team_size'', Column False [JInt 5, JInt 3])], [JInt 1, JInt 1])"
    by (simp add: load_csv_as_specified_def isdir_def listdir_def sample_listings sample_joins
        sample_projects_table)
  have mixed_code: "load_csv sample_runtime sample_fs ''/opt/ml/input/data/mixed'' = Inl IsADirectoryError"
    by (simp add: load_csv_def isdir_def listdir_def glob_star_csv_def glob1_star_csv_def has_magic_def
        sample_directories sample_listings sample_names sample_joins sample_order sample_projects_table)
  have mixed_spec: "load_csv_as_specified sample_runtime sample_fs ''/opt/ml/input/data/mixed'' =
       Inr ([(''project_type'', Column True [JStr ''infra'', JStr ''web'']),
             (''team_size'', Column False [JInt 5, JInt 3])], [JInt 1, JInt 1])"
    by (simp add: load_csv_as_specified_def isdir_def listdir_def sample_listings sample_joins
        sample_projects_table)
  from hidden_code hidden_spec mixed_code mixed_spec show ?thesis
    by blast
qed

text \<open>
  Claim C9, amended. Let \<open>d\<close> be the directory that \<^verbatim>\<open>glob\<close> lists for the path \<open>p\<close> (it is \<open>p\<close>
  itself unless \<open>p\<close> ends in a slash). A path that is not a directory is read directly. For
  a directory whose name holds none of the pattern characters \<^verbatim>\<open>*\<close>, \<^verbatim>\<open>?\<close>, \<^verbatim>\<open>[\<close>,
  \<open>load_csv\<close> raises \<open>FileNotFoundError\<close> when no entry of \<open>d\<close> has a name that ends in
  \<^verbatim>\<open>.csv\<close> and does not begin with a dot, and otherwise reads the entry of that kind, file
  or directory, whose path is least in the order of strings. Reading a path gives
  \<open>FileNotFoundError\<close> when nothing is there, \<open>IsADirectoryError\<close> on a directory, the
  parser's error, \<open>KeyError\<close> without the column \<^verbatim>\<open>is_late\<close>, and else the table without
  that column together with the column's cells.
\<close>

theorem load_csv_first_csv_entry:
  assumes "fst (path_split (path_join p ''*.csv'')) = d"
  shows "(\<not> isdir fs p \<longrightarrow> load_csv R fs p = read_table R fs p)
       \<and> (p \<noteq> [] \<and> last p \<noteq> CHR ''/'' \<longrightarrow> d = p)
       \<and> (isdir fs p \<and> d \<noteq> [] \<and> \<not> has_magic d
            \<and> (\<forall>name \<in> set (listdir fs d). ishidden name \<or> \<not> fnmatch_star_csv name)
            \<longrightarrow> load_csv R fs p = Inl FileNotFoundError)
       \<and> (isdir fs p \<and> d \<noteq> [] \<and> \<not> has_magic d
            \<and> (\<exists>name \<in> set (listdir fs d). \<not> ishidden name \<and> fnmatch_star_csv name)
            \<longrightarrow> (\<exists>name \<in> set (listdir fs d).
                   \<not> ishidden name \<and> (\<exists>stem. name = stem @ ''.csv'')
                   \<and> (\<forall>other \<in> set (listdir fs d).
                         \<not> ishidden other \<and> fnmatch_star_csv other
                         \<longrightarrow> path_join d name \<le> path_join d other)
                   \<and> load_csv R fs p = read_table R fs (path_join d name)))
       \<and> (fs q = None \<longrightarrow> read_table R fs q = Inl FileNotFoundError)
       \<and> (fs q = Some (Dir names) \<longrightarrow> read_table R fs q = Inl IsADirectoryError)
       \<and> (fs q = Some (File content) \<and> parse_csv R content = Inl e \<longrightarrow> read_table R fs q = Inl e)
       \<and> (fs q = Some (File content) \<and> parse_csv R content = Inr df \<and> map_of df ''is_late'' = None
            \<longrightarrow> read_table R fs q = Inl KeyError)
       \<and> (fs q = Some (File content) \<and> parse_csv R content = Inr df \<and> map_of df ''is_late'' = Some col
            \<longrightarrow> read_table R fs q = Inr (filter (\<lambda>(name, c). name \<noteq> ''is_late'') df, cells col))"
proof -
  let ?entries = "glob1_star_csv fs d"
  let ?found = "glob_star_csv R fs (path_join p ''*.csv'')"
  have direct: "load_csv R fs p = read_table R fs p" if "\<not> isdir fs p"
    using that by (simp add: load_csv_def)
  have same_dir: "d = p" if "p \<noteq> []" "last p \<noteq> CHR ''/''"
    using path_split_star_csv [OF that] assms by simp
  have found: "?found = map (path_join d) ?entries" if "d \<noteq> []" "\<not> has_magic d"
    using glob_star_csv_plain [OF assms that] .
  have none: "load_csv R fs p = Inl FileNotFoundError"
    if "isdir fs p" "d \<noteq> []" "\<not> has_magic d"
      "\<forall>name \<in> set (listdir fs d). ishidden name \<or> \<not> fnmatch_star_csv name"
  proof -
    from that(4) have "set ?entries = {}"
      unfolding glob1_star_csv_set by blast
    then have "?found = []"
      using found [OF that(2,3)] by simp
    with that(1) show ?thesis
      by (simp add: load_csv_def)
  qed
  have first: "\<exists>name \<in> set (listdir fs d).
                   \<not> ishidden name \<and> (\<exists>stem. name = stem @ ''.csv'')
                   \<and> (\<forall>other \<in> set (listdir fs d).
                         \<not> ishidden other \<and> fnmatch_star_csv other
                         \<longrightarrow> path_join d name \<le> path_join d other)
                   \<and> load_csv R fs p = read_table R fs (path_join d name)"
    if "isdir fs p" "d \<noteq> []" "\<not> has_magic d"
      "\<exists>name \<in> set (listdir fs d). \<not> ishidden name \<and> fnmatch_star_csv name"
  proof -
    note paths = found [OF that(2,3)]
    from that(4) have "set ?entries \<noteq> {}"
      unfolding glob1_star_csv_set by blast
    then have nonempty: "?found \<noteq> []"
      unfolding paths by simp
    then have sorted_nonempty: "sort ?found \<noteq> []"
      using sort_eq_Nil by blast
    have chosen: "load_csv R fs p = read_table R fs (hd (sort ?found))"
      using that(1) sorted_nonempty by (simp add: load_csv_def Let_def)
    from hd_sort_least [OF nonempty]
    have member: "hd (sort ?found) \<in> set ?found"
      and least: "\<forall>c \<in> set ?found. hd (sort ?found) \<le> c"
      by blast+
    from member obtain name where name: "name \<in> set ?entries" "hd (sort ?found) = path_join d name"
      unfolding paths by auto
    from name(1) have listed: "name \<in> set (listdir fs d)" "\<not> ishidden name" "fnmatch_star_csv name"
      unfolding glob1_star_csv_set by blast+
    from listed(3) have ending: "\<exists>stem. name = stem @ ''.csv''"
      by (simp only: fnmatch_star_csv_iff)
    have before: "path_join d name \<le> path_join d other"
      if "other \<in> set (listdir fs d)" "\<not> ishidden other" "fnmatch_star_csv other" for other
    proof -
      from that have "other \<in> set ?entries"
        unfolding glob1_star_csv_set by blast
      then have "path_join d other \<in> set ?found"
        unfolding paths by simp
      with least name(2) show ?thesis
        by (metis)
    qed
    from chosen name(2) have "load_csv R fs p = read_table R fs (path_join d name)"
      by (simp only:)
    with listed(1,2) ending before show ?thesis
      by blast
  qed
  from direct same_dir none first read_table_cases [of fs q R names content e df col]
  show ?thesis
    by blast
qed

text \<open>A channel directory with two tables and a text file, an empty channel directory, and
  a file.\<close>

theorem load_csv_first_csv_entry_witness:
  "load_csv sample_runtime sample_fs ''/opt/ml/input/data/train'' =
     Inr ([(''project_type'', Column True [JStr ''infra'', JStr ''web'']),
           (''team_size'', Column False [JInt 5, JInt 3])], [JInt 1, JInt 1])
   \<and> load_csv sample_runtime sample_fs ''/opt/ml/input/data/empty'' = Inl FileNotFoundError
   \<and> load_csv sample_runtime sample_fs ''data/projects.csv''
     = read_table sample_runtime sample_fs ''data/projects.csv''"
proof -
  let ?train = "''/opt/ml/input/data/train''"
  let ?a = "''part-a.csv''" and ?b = "''part-b.csv''" and ?notes = "''notes.txt''"
  let ?df = "[(''project_type'', Column True [JStr ''infra'', JStr ''web'']),
              (''team_size'', Column False [JInt 5, JInt 3]),
              (''is_late'', Column False [JInt 1, JInt 1])]"
  have train_dir: "fst (path_split (path_join ?train ''*.csv'')) = ?train"
    by (simp add: sample_directories)
  have train_facts: "isdir sample_fs ?train" "?train \<noteq> []" "\<not> has_magic ?train"
    "listdir sample_fs ?train = [?b, ?notes, ?a]"
    by (simp_all add: isdir_def listdir_def has_magic_def sample_listings)
  have parsed: "parse_csv sample_runtime projects_csv_text = Inr ?df"
    "map_of ?df ''is_late'' = Some (Column False [JInt 1, JInt 1])"
    by (simp_all add: sample_runtime_def sample_parse_csv_def)
  note claim = load_csv_first_csv_entry [OF train_dir, where R = sample_runtime and fs = sample_fs
      and q = "''/opt/ml/input/data/train/part-a.csv''" and content = projects_csv_text
      and df = ?df and col = "Column False [JInt 1, JInt 1]"]
  note selects = claim [THEN conjunct2, THEN conjunct2, THEN conjunct2, THEN conjunct1]
  note reads = claim [THEN conjunct2, THEN conjunct2, THEN conjunct2, THEN conjunct2,
      THEN conjunct2, THEN conjunct2, THEN conjunct2, THEN conjunct2]
  have some: "\<exists>name \<in> set (listdir sample_fs ?train). \<not> ishidden name \<and> fnmatch_star_csv name"
    unfolding train_facts(4) using sample_names(1,7) by simp
  from train_facts(1,2,3) some
  have selectable: "isdir sample_fs ?train \<and> ?train \<noteq> [] \<and> \<not> has_magic ?train
      \<and> (\<exists>name \<in> set (listdir sample_fs ?train). \<not> ishidden name \<and> fnmatch_star_csv name)"
    by (intro conjI)
  have "\<exists>name \<in> set (listdir sample_fs ?train).
           \<not> ishidden name \<and> (\<exists>stem. name = stem @ ''.csv'')
           \<and> (\<forall>other \<in> set (listdir sample_fs ?train).
                 \<not> ishidden other \<and> fnmatch_star_csv other
                 \<longrightarrow> path_join ?train name \<le> path_join ?train other)
           \<and> load_csv sample_runtime sample_fs ?train
               = read_table sample_runtime sample_fs (path_join ?train name)"
    by (rule selects [THEN mp, OF selectable])
  then obtain name where name: "name \<in> set [?b, ?notes, ?a]" "\<exists>stem. name = stem @ ''.csv''"
    and least: "\<forall>other \<in> set [?b, ?notes, ?a].
        \<not> ishidden other \<and> fnmatch_star_csv other \<longrightarrow> path_join ?train name \<le> path_join ?train other"
    and read: "load_csv sample_runtime sample_fs ?train = read_table sample_runtime sample_fs (path_join ?train name)"
    unfolding train_facts(4) by blast
  from name(1) have "name = ?b \<or> name = ?notes \<or> name = ?a"
    by simp
  moreover have "name \<noteq> ?notes"
  proof
    assume "name = ?notes"
    with name(2) have "fnmatch_star_csv ?notes"
      by (simp only: fnmatch_star_csv_iff)
    with sample_names(3) show False
      by (rule notE)
  qed
  moreover have "name \<noteq> ?b"
  proof
    assume "name = ?b"
    moreover from least have "\<not> ishidden ?a \<and> fnmatch_star_csv ?a
        \<longrightarrow> path_join ?train name \<le> path_join ?train ?a"
      by simp
    ultimately have "path_join ?train ?b \<le> path_join ?train ?a"
      using sample_names(1,7) by simp
    with sample_order(1) show False
      by (simp only: sample_joins)
  qed
  ultimately have "name = ?a"
    by blast
  with read have "load_csv sample_runtime sample_fs ?train
      = read_table sample_runtime sample_fs ''/opt/ml/input/data/train/part-a.csv''"
    by (simp only: sample_joins)
  moreover from sample_listings(10) parsed
  have readable: "sample_fs ''/opt/ml/input/data/train/part-a.csv'' = Some (File projects_csv_text)
      \<and> parse_csv sample_runtime projects_csv_text = Inr ?df
      \<and> map_of ?df ''is_late'' = Some (Column False [JInt 1, JInt 1])"
    by (intro conjI)
  have "read_table sample_runtime sample_fs ''/opt/ml/input/data/train/part-a.csv'' =
     Inr (filter (\<lambda>(name, c). name \<noteq> ''is_late'') ?df, cells (Column False [JInt 1, JInt 1]))"
    by (rule reads [THEN mp, OF readable])
  ultimately have first: "load_csv sample_runtime sample_fs ?train =
     Inr ([(''project_type'', Column True [JStr ''infra'', JStr ''web'']),
           (''team_size'', Column False [JInt 5, JInt 3])], [JInt 1, JInt 1])"
    by simp
  have empty_dir: "fst (path_split (path_join ''/opt/ml/input/data/empty'' ''*.csv'')) = ''/opt/ml/input/data/empty''"
    by (simp add: sample_directories)
  have empty_facts: "isdir sample_fs ''/opt/ml/input/data/empty''" "\<not> has_magic ''/opt/ml/input/data/empty''"
    "listdir sample_fs ''/opt/ml/input/data/empty'' = []"
    by (simp_all add: isdir_def listdir_def has_magic_def sample_listings)
  have none: "load_csv sample_runtime sample_fs ''/opt/ml/input/data/empty'' = Inl FileNotFoundError"
    using load_csv_first_csv_entry [OF empty_dir, where R = sample_runtime and fs = sample_fs,
        THEN conjunct2, THEN conjunct2, THEN conjunct1]
      empty_facts
    by simp
  have file_dir: "fst (path_split (path_join ''data/projects.csv'' ''*.csv'')) = ''data/projects.csv''"
    by (simp add: path_split_star_csv)
  have not_dir: "\<not> isdir sample_fs ''data/projects.csv''"
    by (simp add: isdir_def sample_fs_def)
  have direct: "load_csv sample_runtime sample_fs ''data/projects.csv''
     = read_table sample_runtime sample_fs ''data/projects.csv''"
    using load_csv_first_csv_entry [OF file_dir, where R = sample_runtime and fs = sample_fs,
        THEN conjunct1] not_dir
    by blast
  from first none direct show ?thesis
    by blast
qed

text \<open>
  A directory name with a pattern character is not escaped before it goes to \<^verbatim>\<open>glob\<close>:
  the directory \<^verbatim>\<open>br[1]\<close> holds \<^verbatim>\<open>a.csv\<close>, but the pattern \<^verbatim>\<open>br[1]/*.csv\<close> looks into a
  directory \<^verbatim>\<open>br1\<close>, which is not there.
\<close>

lemma sample_no_br1:
  "iglob_dirs sample_runtime sample_fs ''/opt/ml/input/data/br[1]'' = []"
  by (simp add: sample_runtime_def sample_iglob_dirs_def isdir_def sample_listings)

lemma load_csv_unescaped_directory_name:
  "isdir sample_fs ''/opt/ml/input/data/br[1]''
   \<and> listdir sample_fs ''/opt/ml/input/data/br[1]'' = [''a.csv'']
   \<and> load_csv sample_runtime sample_fs ''/opt/ml/input/data/br[1]'' = Inl FileNotFoundError"
proof -
  have differs: "''/opt/ml/input/data/br[1]'' \<noteq> path_join ''/opt/ml/input/data/br[1]'' ''*.csv''"
    by (simp add: path_join_def)
  have found: "glob_star_csv sample_runtime sample_fs (path_join ''/opt/ml/input/data/br[1]'' ''*.csv'') = []"
    using differs
    by (simp add: glob_star_csv_def Let_def has_magic_def sample_directories sample_no_br1)
  show ?thesis
    by (simp add: load_csv_def found isdir_def listdir_def sample_listings)
qed

section \<open>The training run\<close>

lemma as_path_Inr: "as_path v = Inr s \<longleftrightarrow> v = JStr s"
  by (cases v) simp_all

lemma path_join_distinct: "path_join d ''model.joblib'' \<noteq> path_join d ''metrics.txt''"
  by (simp add: path_join_def)

lemma train_and_score_Inr:
  assumes "train_and_score R fs env config = Inr c"
  shows "\<exists>cfg data_path X y X_tr X_te y_tr y_te lr_pred xgb_pred.
           load_config R fs env config = Inr cfg
         \<and> resolve_paths env cfg = Inr (JStr data_path, out_dir_of c)
         \<and> load_csv R fs data_path = Inr (X, y)
         \<and> train_test_split R X y = Inr (X_tr, X_te, y_tr, y_te)
         \<and> fit_logreg R (build_preprocessor X) X_tr y_tr = Inr (logreg_model c)
         \<and> predict (logreg_model c) X_te = Inr lr_pred
         \<and> f1_score R y_te lr_pred = Inr (logreg_f1 c)
         \<and> fit_xgboost R (build_preprocessor X) X_tr y_tr = Inr (xgboost_model c)
         \<and> predict (xgboost_model c) X_te = Inr xgb_pred
         \<and> f1_score R y_te xgb_pred = Inr (xgboost_f1 c)"
  using assms unfolding train_and_score_def Let_def
  by (auto split: sum.splits prod.splits simp: as_path_Inr)

lemma pick_best_and_save_unchanged_or_scored:
  "pick_best_and_save R fs c = (Inr (), fs') \<Longrightarrow>
     \<exists>out. out_dir_of c = JStr out
       \<and> fs' = ((fs(out \<mapsto> Dir (listdir fs out)))
            (path_join out ''model.joblib'' \<mapsto>
               File (joblib_dumps R (if py_ge (xgboost_f1 c) (logreg_f1 c)
                                     then xgboost_model c else logreg_model c))))
            (path_join out ''metrics.txt'' \<mapsto> File (metrics_text R (logreg_f1 c) (xgboost_f1 c)))"
  unfolding pick_best_and_save_def Let_def makedirs_def write_file_def
  by (cases "out_dir_of c") (auto split: option.splits fnode.splits if_splits)

text \<open>
  Claim C8. A run of \<open>main\<close> that fails in any step before the output is written
  (loading the configuration, resolving the paths, so also missing environment variables,
  reading the data, so also a missing data file or a missing label column, splitting,
  fitting or scoring) returns the error and leaves the file system as it was; and
  whenever \<open>main\<close> has changed the file system, both pipelines had been fitted and scored.
\<close>

theorem main_writes_only_after_scoring:
  "(train_and_score R fs env config = Inl e \<longrightarrow> main R fs env config = (Inl e, fs))
   \<and> (load_config R fs env config = Inl e \<longrightarrow> main R fs env config = (Inl e, fs))
   \<and> (load_config R fs env config = Inr cfg \<and> resolve_paths env cfg = Inl e
        \<longrightarrow> main R fs env config = (Inl e, fs))
   \<and> (load_config R fs env config = Inr cfg \<and> resolve_paths env cfg = Inr (JStr data_path, out_dir)
        \<and> load_csv R fs data_path = Inl e
        \<longrightarrow> main R fs env config = (Inl e, fs))
   \<and> (snd (main R fs env config) \<noteq> fs
        \<longrightarrow> (\<exists>c X_tr X_te y_tr y_te pre lr_pred xgb_pred.
               train_and_score R fs env config = Inr c
             \<and> fit_logreg R pre X_tr y_tr = Inr (logreg_model c)
             \<and> predict (logreg_model c) X_te = Inr lr_pred
             \<and> f1_score R y_te lr_pred = Inr (logreg_f1 c)
             \<and> fit_xgboost R pre X_tr y_tr = Inr (xgboost_model c)
             \<and> predict (xgboost_model c) X_te = Inr xgb_pred
             \<and> f1_score R y_te xgb_pred = Inr (xgboost_f1 c)))"
proof -
  have aborted: "main R fs env config = (Inl e, fs)" if "train_and_score R fs env config = Inl e"
    using that by (simp add: main_def)
  have no_config: "train_and_score R fs env config = Inl e" if "load_config R fs env config = Inl e"
    using that by (simp add: train_and_score_def)
  have no_paths: "train_and_score R fs env config = Inl e"
    if "load_config R fs env config = Inr cfg" "resolve_paths env cfg = Inl e"
    using that by (simp add: train_and_score_def)
  have no_data: "train_and_score R fs env config = Inl e"
    if "load_config R fs env config = Inr cfg" "resolve_paths env cfg = Inr (JStr data_path, out_dir)"
      "load_csv R fs data_path = Inl e"
    using that by (simp add: train_and_score_def)
  have written: "\<exists>c X_tr X_te y_tr y_te pre lr_pred xgb_pred.
               train_and_score R fs env config = Inr c
             \<and> fit_logreg R pre X_tr y_tr = Inr (logreg_model c)
             \<and> predict (logreg_model c) X_te = Inr lr_pred
             \<and> f1_score R y_te lr_pred = Inr (logreg_f1 c)
             \<and> fit_xgboost R pre X_tr y_tr = Inr (xgboost_model c)
             \<and> predict (xgboost_model c) X_te = Inr xgb_pred
             \<and> f1_score R y_te xgb_pred = Inr (xgboost_f1 c)"
    if changed: "snd (main R fs env config) \<noteq> fs"
  proof (cases "train_and_score R fs env config")
    case (Inl err)
    with changed show ?thesis by (simp add: main_def)
  next
    case (Inr c)
    from train_and_score_Inr [OF Inr] Inr show ?thesis by blast
  qed
  from aborted no_config no_paths no_data written show ?thesis by blast
qed

text \<open>
  Claim C7. After a completed run of \<open>main\<close> the artifact file holds the dump of one
  pipeline and the last line of the metrics report names it: the XGBoost pipeline and
  \<^verbatim>\<open>xgboost\<close> when \<^verbatim>\<open>f1_xgb >= f1_lr\<close>, the logistic regression and \<^verbatim>\<open>logreg\<close> otherwise;
  for finite scores \<^verbatim>\<open>xgboost\<close> is named exactly when the baseline's score is at most the
  ensemble's, so the higher score wins and a tie goes to XGBoost.
\<close>

theorem main_best_is_persisted:
  assumes "main R fs env config = (Inr (), fs')"
  shows "\<exists>c out best name.
           train_and_score R fs env config = Inr c
         \<and> out_dir_of c = JStr out
         \<and> fs' (path_join out ''model.joblib'') = Some (File (joblib_dumps R best))
         \<and> fs' (path_join out ''metrics.txt'') =
             Some (File (''logreg_f1='' @ format_4f R (logreg_f1 c) @ [CHR 0x0A] @
                         ''xgboost_f1='' @ format_4f R (xgboost_f1 c) @ [CHR 0x0A] @
                         ''best='' @ name @ [CHR 0x0A]))
         \<and> (if py_ge (xgboost_f1 c) (logreg_f1 c)
             then best = xgboost_model c \<and> name = ''xgboost''
             else best = logreg_model c \<and> name = ''logreg'')
         \<and> (\<forall>a b. xgboost_f1 c = Finite a \<and> logreg_f1 c = Finite b
               \<longrightarrow> (name = ''xgboost'' \<longleftrightarrow> b \<le> a))"
proof (cases "train_and_score R fs env config")
  case (Inl e)
  with assms show ?thesis by (simp add: main_def)
next
  case (Inr c)
  with assms have saved: "pick_best_and_save R fs c = (Inr (), fs')"
    by (simp add: main_def)
  let ?best = "if py_ge (xgboost_f1 c) (logreg_f1 c) then xgboost_model c else logreg_model c"
  let ?name = "if py_ge (xgboost_f1 c) (logreg_f1 c) then ''xgboost'' else ''logreg''"
  from pick_best_and_save_unchanged_or_scored [OF saved]
  obtain out where out: "out_dir_of c = JStr out"
    and fs': "fs' = ((fs(out \<mapsto> Dir (listdir fs out)))
            (path_join out ''model.joblib'' \<mapsto> File (joblib_dumps R ?best)))
            (path_join out ''metrics.txt'' \<mapsto> File (metrics_text R (logreg_f1 c) (xgboost_f1 c)))"
    by blast
  have artifact: "fs' (path_join out ''model.joblib'') = Some (File (joblib_dumps R ?best))"
    unfolding fs' using path_join_distinct [of out] by simp
  have report: "fs' (path_join out ''metrics.txt'') =
             Some (File (''logreg_f1='' @ format_4f R (logreg_f1 c) @ [CHR 0x0A] @
                         ''xgboost_f1='' @ format_4f R (xgboost_f1 c) @ [CHR 0x0A] @
                         ''best='' @ ?name @ [CHR 0x0A]))"
    unfolding fs' by (simp add: metrics_text_def)
  have agree: "if py_ge (xgboost_f1 c) (logreg_f1 c)
             then ?best = xgboost_model c \<and> ?name = ''xgboost''
             else ?best = logreg_model c \<and> ?name = ''logreg''"
    by simp
  have higher: "\<forall>a b. xgboost_f1 c = Finite a \<and> logreg_f1 c = Finite b
               \<longrightarrow> (?name = ''xgboost'' \<longleftrightarrow> b \<le> a)"
    by simp
  from Inr out artifact report agree higher show ?thesis
    by blast
qed

lemma sample_load_local:
  "load_config sample_runtime sample_fs Map.empty (Some ''config.json'') = Inr local_config"
  by (simp add: load_config_def config_location_def read_file_def sample_fs_def sample_runtime_def
      sample_json_loads_def local_config_def)

lemma sample_load_platform:
  assumes "env ''MODE'' = Some ''SageMaker''"
  shows "load_config sample_runtime sample_fs env (Some ''config.json'') = Inr platform_config"
  using assms
  by (simp add: load_config_def config_location_def read_file_def sample_fs_def sample_runtime_def
      sample_json_loads_def local_config_def platform_config_def ascii_lower_def)

lemma sample_resolve_local:
  "resolve_paths Map.empty local_config = Inr (JStr ''data/projects.csv'', JStr ''artifacts'')"
  by (simp add: resolve_paths_def local_config_def)

lemma sample_resolve_platform:
  "resolve_paths (map_of [(''MODE'', ''SageMaker'')]) platform_config = Inl EnvironmentError"
  "resolve_paths (map_of [(''MODE'', ''SageMaker''), (''SM_CHANNEL_TRAIN'', ''data/missing.csv''),
       (''SM_MODEL_DIR'', ''/opt/ml/model'')]) platform_config
     = Inr (JStr ''data/missing.csv'', JStr ''/opt/ml/model'')"
  "resolve_paths (map_of [(''MODE'', ''SageMaker''), (''SM_CHANNEL_TRAIN'', ''data/unlabelled.csv''),
       (''SM_MODEL_DIR'', ''/opt/ml/model'')]) platform_config
     = Inr (JStr ''data/unlabelled.csv'', JStr ''/opt/ml/model'')"
  by (simp_all add: resolve_paths_def platform_config_def)

lemma sample_load_csv:
  "load_csv sample_runtime sample_fs ''data/missing.csv'' = Inl FileNotFoundError"
  "load_csv sample_runtime sample_fs ''data/unlabelled.csv'' = Inl KeyError"
  "load_csv sample_runtime sample_fs ''data/projects.csv'' =
     Inr ([(''project_type'', Column True [JStr ''infra'', JStr ''web'']),
           (''team_size'', Column False [JInt 5, JInt 3])], [JInt 1, JInt 1])"
  by (simp_all add: load_csv_def isdir_def read_table_def read_file_def sample_fs_def
      sample_runtime_def sample_parse_csv_def projects_csv_text_def unlabelled_csv_text_def)

lemma sample_library:
  "train_test_split sample_runtime X y = Inr (X, X, y, y)"
  "fit_logreg sample_runtime pre X y = Inr (constant_model 0.4 0)"
  "fit_xgboost sample_runtime pre X y = Inr (constant_model 0.7 1)"
  "f1_score sample_runtime y_true y_pred = Inr (Finite (if y_true = y_pred then 1 else 0))"
  "joblib_dumps sample_runtime (constant_model p 1) = ''xgboost-pipeline''"
  "joblib_dumps sample_runtime (constant_model p 0) = ''logreg-pipeline''"
  "format_4f sample_runtime (Finite 1) = ''1.0000''"
  "format_4f sample_runtime (Finite 0) = ''0.0000''"
  by (simp_all add: sample_runtime_def sample_f1_score_def sample_joblib_dumps_def
      sample_format_4f_def constant_model_def)

lemma sample_predict:
  "predict (constant_model p l) ((name, Column flag [v, w]) # rest) = Inr [JInt l, JInt l]"
  by (simp add: constant_model_def)

lemma sample_train:
  "train_and_score sample_runtime sample_fs Map.empty (Some ''config.json'') =
     Inr \<lparr>out_dir_of = JStr ''artifacts'', logreg_model = constant_model 0.4 0,
          logreg_f1 = Finite 0, xgboost_model = constant_model 0.7 1, xgboost_f1 = Finite 1\<rparr>"
  by (simp add: train_and_score_def sample_load_local sample_resolve_local sample_load_csv
      sample_library sample_predict)

lemma sample_main:
  "main sample_runtime sample_fs Map.empty (Some ''config.json'') =
     (Inr (),
      ((sample_fs(''artifacts'' \<mapsto> Dir []))
         (''artifacts/model.joblib'' \<mapsto> File ''xgboost-pipeline''))
         (''artifacts/metrics.txt'' \<mapsto>
            File (''logreg_f1=0.0000'' @ [CHR 0x0A] @ ''xgboost_f1=1.0000'' @ [CHR 0x0A] @
                  ''best=xgboost'' @ [CHR 0x0A])))"
proof -
  have absent: "sample_fs ''artifacts'' = None" "sample_fs ''artifacts/model.joblib'' = None"
    "sample_fs ''artifacts/metrics.txt'' = None"
    by (simp_all add: sample_fs_def)
  have paths: "path_join ''artifacts'' ''model.joblib'' = ''artifacts/model.joblib''"
    "path_join ''artifacts'' ''metrics.txt'' = ''artifacts/metrics.txt''"
    by (simp_all add: path_join_def)
  show ?thesis
    by (simp add: main_def sample_train pick_best_and_save_def makedirs_def write_file_def
        listdir_def metrics_text_def sample_library absent paths)
qed

text \<open>A complete run in local mode: XGBoost scores 1.0, the baseline 0.0.\<close>

theorem main_best_is_persisted_witness:
  "fst (main sample_runtime sample_fs Map.empty (Some ''config.json'')) = Inr ()
   \<and> snd (main sample_runtime sample_fs Map.empty (Some ''config.json'')) ''artifacts/model.joblib''
       = Some (File ''xgboost-pipeline'')
   \<and> snd (main sample_runtime sample_fs Map.empty (Some ''config.json'')) ''artifacts/metrics.txt''
       = Some (File (''logreg_f1=0.0000'' @ [CHR 0x0A] @ ''xgboost_f1=1.0000'' @ [CHR 0x0A] @
                     ''best=xgboost'' @ [CHR 0x0A]))"
proof -
  let ?run = "main sample_runtime sample_fs Map.empty (Some ''config.json'')"
  have completed: "fst ?run = Inr ()"
    by (simp only: sample_main fst_conv)
  then have run: "?run = (Inr (), snd ?run)"
    by (metis prod.collapse)
  from main_best_is_persisted [OF run]
  obtain c out best name where c: "train_and_score sample_runtime sample_fs Map.empty (Some ''config.json'') = Inr c"
    and out: "out_dir_of c = JStr out"
    and artifact: "snd ?run (path_join out ''model.joblib'') = Some (File (joblib_dumps sample_runtime best))"
    and report: "snd ?run (path_join out ''metrics.txt'') =
             Some (File (''logreg_f1='' @ format_4f sample_runtime (logreg_f1 c) @ [CHR 0x0A] @
                         ''xgboost_f1='' @ format_4f sample_runtime (xgboost_f1 c) @ [CHR 0x0A] @
                         ''best='' @ name @ [CHR 0x0A]))"
    and agree: "if py_ge (xgboost_f1 c) (logreg_f1 c)
             then best = xgboost_model c \<and> name = ''xgboost''
             else best = logreg_model c \<and> name = ''logreg''"
    by blast
  from c have c_eq: "c = \<lparr>out_dir_of = JStr ''artifacts'', logreg_model = constant_model 0.4 0,
          logreg_f1 = Finite 0, xgboost_model = constant_model 0.7 1, xgboost_f1 = Finite 1\<rparr>"
    by (simp add: sample_train)
  from out have out_eq: "out = ''artifacts''"
    by (simp add: c_eq)
  from agree have best_eq: "best = constant_model 0.7 1" and name_eq: "name = ''xgboost''"
    by (simp_all add: c_eq)
  have paths: "path_join ''artifacts'' ''model.joblib'' = ''artifacts/model.joblib''"
    "path_join ''artifacts'' ''metrics.txt'' = ''artifacts/metrics.txt''"
    by (simp_all add: path_join_def)
  from artifact have first: "snd ?run ''artifacts/model.joblib'' = Some (File ''xgboost-pipeline'')"
    by (simp add: out_eq best_eq paths sample_library)
  from report have second: "snd ?run ''artifacts/metrics.txt''
       = Some (File (''logreg_f1=0.0000'' @ [CHR 0x0A] @ ''xgboost_f1=1.0000'' @ [CHR 0x0A] @
                     ''best=xgboost'' @ [CHR 0x0A]))"
    by (simp add: out_eq name_eq paths c_eq sample_library)
  from completed first second show ?thesis
    by blast
qed

text \<open>Runs with the platform's variables unset, with a missing data file and with a table
  without the label column; and the complete run, which changes the file system.\<close>

theorem main_writes_only_after_scoring_witness:
  "main sample_runtime sample_fs (map_of [(''MODE'', ''SageMaker'')]) (Some ''config.json'')
     = (Inl EnvironmentError, sample_fs)
   \<and> main sample_runtime sample_fs
        (map_of [(''MODE'', ''SageMaker''), (''SM_CHANNEL_TRAIN'', ''data/missing.csv''),
                 (''SM_MODEL_DIR'', ''/opt/ml/model'')]) (Some ''config.json'')
     = (Inl FileNotFoundError, sample_fs)
   \<and> main sample_runtime sample_fs
        (map_of [(''MODE'', ''SageMaker''), (''SM_CHANNEL_TRAIN'', ''data/unlabelled.csv''),
                 (''SM_MODEL_DIR'', ''/opt/ml/model'')]) (Some ''config.json'')
     = (Inl KeyError, sample_fs)
   \<and> (\<exists>c. train_and_score sample_runtime sample_fs Map.empty (Some ''config.json'') = Inr c)"
proof -
  let ?no_vars = "map_of [(''MODE'', ''SageMaker'')]"
  let ?no_file = "map_of [(''MODE'', ''SageMaker''), (''SM_CHANNEL_TRAIN'', ''data/missing.csv''),
                 (''SM_MODEL_DIR'', ''/opt/ml/model'')]"
  let ?no_label = "map_of [(''MODE'', ''SageMaker''), (''SM_CHANNEL_TRAIN'', ''data/unlabelled.csv''),
                 (''SM_MODEL_DIR'', ''/opt/ml/model'')]"
  note claim = main_writes_only_after_scoring [where R = sample_runtime and fs = sample_fs
      and config = "Some ''config.json''"]
  have loaded: "load_config sample_runtime sample_fs ?no_vars (Some ''config.json'') = Inr platform_config"
    "load_config sample_runtime sample_fs ?no_file (Some ''config.json'') = Inr platform_config"
    "load_config sample_runtime sample_fs ?no_label (Some ''config.json'') = Inr platform_config"
    by (rule sample_load_platform, simp)+
  have no_vars: "main sample_runtime sample_fs ?no_vars (Some ''config.json'') = (Inl EnvironmentError, sample_fs)"
    using claim [where env = ?no_vars and cfg = platform_config and e = EnvironmentError]
      loaded(1) sample_resolve_platform(1)
    by blast
  have no_file: "main sample_runtime sample_fs ?no_file (Some ''config.json'') = (Inl FileNotFoundError, sample_fs)"
    using claim [where env = ?no_file and cfg = platform_config and e = FileNotFoundError
        and data_path = "''data/missing.csv''" and out_dir = "JStr ''/opt/ml/model''"]
      loaded(2) sample_resolve_platform(2) sample_load_csv(1)
    by blast
  have no_label: "main sample_runtime sample_fs ?no_label (Some ''config.json'') = (Inl KeyError, sample_fs)"
    using claim [where env = ?no_label and cfg = platform_config and e = KeyError
        and data_path = "''data/unlabelled.csv''" and out_dir = "JStr ''/opt/ml/model''"]
      loaded(3) sample_resolve_platform(3) sample_load_csv(2)
    by blast
  have "snd (main sample_runtime sample_fs Map.empty (Some ''config.json'')) ''artifacts'' = Some (Dir [])"
    by (simp add: sample_main)
  moreover have "sample_fs ''artifacts'' = None"
    by (simp add: sample_fs_def)
  ultimately have changed: "snd (main sample_runtime sample_fs Map.empty (Some ''config.json'')) \<noteq> sample_fs"
    by (metis option.distinct(1))
  from claim [where env = Map.empty] changed
  have scored: "\<exists>c. train_and_score sample_runtime sample_fs Map.empty (Some ''config.json'') = Inr c"
    by blast
  from no_vars no_file no_label scored show ?thesis
    by blast
qed

end
